theory Spec2Isabelle
  imports Main "HOL-Library.Word"
begin

section \<open>Data model of the command supervisor (KAThread.cpp)\<close>

text \<open>
  The supervisor of the agent is the class \<open>KAThread\<close>. Its collaborators
  (\<open>KACommand\<close>, \<open>KAStreamReader\<close>, \<open>KAResponsePack\<close>, \<open>KAUserID\<close>, the message
  queue and the operating system) are seen through the calls that \<open>KAThread.cpp\<close>
  makes on them. Everything the operating system answers (select and read results,
  the second of the minute, the result of fork, pgrep and chdir) is an explicit input.
\<close>

type_synonym uint = "32 word"

text \<open>The command, read through its getters.\<close>

record KACommand =
  getUuid :: string
  getTaskUuid :: string
  getRequestSequenceNumber :: int
  getSource :: string
  getProgram :: string
  getArguments :: "string list"
  getEnvironment :: "(string \<times> string) list"
  getWorkingDirectory :: string
  getRunAs :: string
  getStandardOutput :: string
  getStandardError :: string
  getStandardOutputPath :: string
  getStandardErrPath :: string
  getTimeout :: uint

text \<open>
  Modelled from the spec: \<open>KAStreamReader\<close> is not among the sources. A reader holds its
  mode tag, its capture path, the results of the last select and of the last read, the read
  buffer, and (here) the bytes appended so far to its capture file.
\<close>

record KAStreamReader =
  mode :: string
  path :: string
  identity :: string
  selectResult :: int
  readResult :: int
  buffer :: string
  fileData :: string

text \<open>
  Modelled from the spec: \<open>KAResponsePack\<close> is not among the sources. A message is the
  constructor that built it with its arguments in call order. The fifth and sixth
  arguments of \<open>createResponseMessage\<close> and \<open>createTimeoutMessage\<close> are named after
  what every call with buffers passes there: \<open>errBuff\<close>, then \<open>outBuff\<close>.
\<close>

datatype Response =
    ResponseMessage (rUuid: string) (rPid: int) (rRequestSeq: int) (rResponseCount: int)
      (rStdErr: string) (rStdOut: string) (rSource: string) (rTaskUuid: string)
  | TimeoutMessage (rUuid: string) (rPid: int) (rRequestSeq: int) (rResponseCount: int)
      (rStdErr: string) (rStdOut: string) (rSource: string) (rTaskUuid: string)
  | ExitMessage (rUuid: string) (rPid: int) (rRequestSeq: int) (rResponseCount: int)
      (rSource: string) (rTaskUuid: string) (rExitCode: int)

text \<open>The calls on the operating system that change or start a process, in call order.\<close>

datatype SysCall =
    Chdir string
  | DoSetuid nat
  | UndoSetuid nat
  | Kill int
  | KillSelf
  | System string

text \<open>The members of \<open>KAThread\<close>.\<close>

record KAThread =
  CWDERR :: bool
  UIDERR :: bool
  responsecount :: int
  ACTFLAG :: bool
  EXITSTATUS :: int
  processpid :: int
  outBuff :: string
  errBuff :: string
  argument :: string
  environment :: string
  exec :: string
  ruid :: nat
  euid :: nat
  outputStream :: KAStreamReader
  errorStream :: KAStreamReader

text \<open>
  A worker process: the \<open>KAThread\<close> object together with what the process has done to
  the outside. \<open>messageQueue\<close> holds the messages handed to the queue, oldest first (the
  spin on \<open>try_send\<close> is taken to end: the queue is drained by its consumer).
  \<open>sysCalls\<close> lists the identity, directory and kill calls. \<open>logged\<close> lists the recorded
  \<open>writeLog\<close> calls (level and text). \<open>errAppended\<close> is a history variable, not a member
  of the class: the bytes that \<open>checkAndWrite\<close> has appended to \<open>errBuff\<close> so far; it is
  written there and read by no operation.
\<close>

record Worker = KAThread +
  messageQueue :: "Response list"
  sysCalls :: "SysCall list"
  logged :: "(int \<times> string) list"
  errAppended :: string

text \<open>The host: the users that resolve (real and effective uid) and the directories
  into which \<open>chdir\<close> succeeds.\<close>

record Host =
  users :: "string \<Rightarrow> (nat \<times> nat) option"
  directories :: "string \<Rightarrow> bool"

text \<open>The four variables of one timer of \<open>optionReadSend\<close>, passed by pointer to
  \<open>checkExecutionTimeout\<close>.\<close>

record Timer =
  startsec :: uint
  overflag :: bool
  exectimeout :: uint
  count :: uint

text \<open>
  What the operating system answers during one iteration of the multiplex loop: the two
  select results, the second of the minute at each reading of the clock (execution timer,
  heartbeat timer, heartbeat reset), the two reads (\<open>None\<close>: the read failed with -1;
  \<open>Some bs\<close>: \<open>bs\<close> was read, no byte meaning end of file) and whether each capture
  file opens.
\<close>

record Tick =
  outSelect :: int
  errSelect :: int
  execSec :: uint
  heartSec :: uint
  resetSec :: uint
  outRead :: "string option"
  errRead :: "string option"
  outOpenFile :: bool
  errOpenFile :: bool

text \<open>What \<open>optionReadSend\<close> meets: the host, the answers of \<open>waitpid\<close> and of the two
  chained \<open>pgrep\<close> calls during pid discovery, the second of the minute when each timer
  starts, and the iterations of the loop.\<close>

record Env =
  host :: Host
  probes :: "(int \<times> int) list"
  startSecond :: uint
  startHeartSecond :: uint
  ticks :: "Tick list"

section \<open>Operations\<close>

subsection \<open>The stream reader\<close>

definition clearBuffer :: "KAStreamReader \<Rightarrow> KAStreamReader" where
  "clearBuffer r = r\<lparr>buffer := []\<rparr>"

definition startSelection :: "int \<Rightarrow> KAStreamReader \<Rightarrow> KAStreamReader" where
  "startSelection res r = r\<lparr>selectResult := res\<rparr>"

definition startReading :: "string option \<Rightarrow> KAStreamReader \<Rightarrow> KAStreamReader" where
  "startReading rd r =
     (case rd of
        None \<Rightarrow> r\<lparr>readResult := - 1\<rparr>
      | Some bs \<Rightarrow> r\<lparr>readResult := int (length bs), buffer := bs\<rparr>)"

definition appendFile :: "string \<Rightarrow> KAStreamReader \<Rightarrow> KAStreamReader" where
  "appendFile bs r = r\<lparr>fileData := fileData r @ bs\<rparr>"

subsection \<open>KAThread::KAThread\<close>

text \<open>The constructor sets five members; the strings start empty. The readers, and the
  integers that C++ leaves uninitialised, are arguments.\<close>

definition KAThread_new :: "KAStreamReader \<Rightarrow> KAStreamReader \<Rightarrow> int \<Rightarrow> nat \<Rightarrow> nat \<Rightarrow> Worker" where
  "KAThread_new out err pid0 ruid0 euid0 =
     \<lparr>CWDERR = False, UIDERR = False, responsecount = 1, ACTFLAG = False, EXITSTATUS = 0,
      processpid = pid0, outBuff = [], errBuff = [], argument = [], environment = [],
      exec = [], ruid = ruid0, euid = euid0, outputStream = out, errorStream = err,
      messageQueue = [], sysCalls = [], logged = [], errAppended = []\<rparr>"

subsection \<open>KAThread::checkCWD and KAThread::checkUID\<close>

definition checkCWD :: "Host \<Rightarrow> KACommand \<Rightarrow> Worker \<Rightarrow> bool \<times> Worker" where
  "checkCWD h command w =
     (let w1 = w\<lparr>sysCalls := sysCalls w @ [Chdir (getWorkingDirectory command)]\<rparr>
      in if \<not> directories h (getWorkingDirectory command) then (False, w1) else (True, w1))"

text \<open>Modelled from the spec: \<open>KAUserID\<close> is not among the sources. \<open>getIDs\<close> resolves
  the user name to the pair of uids and stores it, or reports that the user is unknown.\<close>

definition checkUID :: "Host \<Rightarrow> KACommand \<Rightarrow> Worker \<Rightarrow> bool \<times> Worker" where
  "checkUID h command w =
     (case users h (getRunAs command) of
        Some (r, e) \<Rightarrow>
          (let w1 = w\<lparr>ruid := r, euid := e\<rparr>
           in (True, w1\<lparr>sysCalls := sysCalls w1 @ [DoSetuid (euid w1)]\<rparr>))
      | None \<Rightarrow> (False, w\<lparr>sysCalls := sysCalls w @ [UndoSetuid (ruid w)]\<rparr>))"

subsection \<open>KAThread::createExecString\<close>

text \<open>\<open>c_str()\<close> of a string, made a string again: the bytes before the first NUL.\<close>

definition c_str :: "string \<Rightarrow> string" where
  "c_str s = takeWhile (\<lambda>c. c \<noteq> CHR 0x00) s"

text \<open>The first loop: the member \<open>argument\<close> after the arguments from index \<open>i\<close> on.\<close>

primrec appendArguments :: "string list \<Rightarrow> string \<Rightarrow> string" where
  "appendArguments [] argument0 = argument0"
| "appendArguments (arg # rest) argument0 = appendArguments rest (argument0 @ arg @ '' '')"

text \<open>The second loop: the member \<open>environment\<close> after the pairs from the iterator on.\<close>

primrec appendEnvironment :: "(string \<times> string) list \<Rightarrow> string \<Rightarrow> string" where
  "appendEnvironment [] environment0 = environment0"
| "appendEnvironment (it # rest) environment0 =
     (let arg = c_str (fst it); env = c_str (snd it)
      in appendEnvironment rest (environment0 @ '' export '' @ arg @ ''='' @ env @ '' && ''))"

definition createExecString :: "KACommand \<Rightarrow> Worker \<Rightarrow> string \<times> Worker" where
  "createExecString command w =
     (let w0 = w\<lparr>exec := []\<rparr>;
          w1 = w0\<lparr>argument := appendArguments (getArguments command) (argument w0)\<rparr>;
          w2 = w1\<lparr>environment := appendEnvironment (getEnvironment command) (environment w1)\<rparr>;
          w3 = (if environment w2 = []
                then w2\<lparr>exec := getProgram command @ '' '' @ argument w2\<rparr>
                else w2\<lparr>exec := environment w2 @ getProgram command @ '' '' @ argument w2\<rparr>)
      in (exec w3, w3))"

subsection \<open>KAThread::checkExecutionTimeout\<close>

text \<open>\<open>currentsec\<close> is the second of the minute that the clock gives; it is read only
  when \<open>exectimeout\<close> is not 0. The result is the returned flag and the four variables.\<close>

definition checkExecutionTimeout :: "uint \<Rightarrow> Timer \<Rightarrow> bool \<times> Timer" where
  "checkExecutionTimeout currentsec t =
     (if exectimeout t \<noteq> 0 then
        (let t1 = (if currentsec > startsec t \<and> overflag t = False then
                     (if currentsec \<noteq> 59
                      then t\<lparr>count := count t + (currentsec - startsec t), startsec := currentsec\<rparr>
                      else t\<lparr>count := count t + (currentsec - startsec t), overflag := True,
                             startsec := 0\<rparr>)
                   else t);
             t2 = (if currentsec = 59 then t1\<lparr>overflag := True, startsec := 0\<rparr>
                   else t1\<lparr>overflag := False\<rparr>)
         in if count t2 \<ge> exectimeout t2 then (True, t2) else (False, t2))
      else (False, t))"

subsection \<open>Sending a message\<close>

text \<open>\<open>while(!messageQueue->try_send(...));\<close> leaves the message in the queue.\<close>

definition try_send :: "Response \<Rightarrow> Worker \<Rightarrow> Worker" where
  "try_send message w = w\<lparr>messageQueue := messageQueue w @ [message]\<rparr>"

text \<open>The call of \<open>createResponseMessage\<close> that every sending branch makes: the header of
  the command, the pid and the counter of the thread, then the two payloads.\<close>

definition createResponseMessage :: "KACommand \<Rightarrow> Worker \<Rightarrow> string \<Rightarrow> string \<Rightarrow> Response" where
  "createResponseMessage command w err out =
     ResponseMessage (getUuid command) (processpid w) (getRequestSequenceNumber command)
       (responsecount w) err out (getSource command) (getTaskUuid command)"

subsection \<open>KAThread::lastCheckAndSend\<close>

definition lastCheckAndSend :: "KACommand \<Rightarrow> Worker \<Rightarrow> Worker" where
  "lastCheckAndSend command w =
     (let outBuffsize = length (outBuff w); errBuffsize = length (errBuff w)
      in if outBuffsize \<noteq> 0 \<or> errBuffsize \<noteq> 0 then
           (if outBuffsize \<noteq> 0 \<and> errBuffsize \<noteq> 0 then
              (if (getStandardOutput command = ''CAPTURE_AND_RETURN'' \<or> getStandardOutput command = ''RETURN'')
                  \<and> (getStandardError command = ''CAPTURE_AND_RETURN'' \<or> getStandardError command = ''RETURN'')
               then
                 (let w1 = try_send (createResponseMessage command w (errBuff w) (outBuff w)) w;
                      w2 = w1\<lparr>responsecount := responsecount w1 + 1\<rparr>;
                      w3 = w2\<lparr>outBuff := []\<rparr>
                  in w3\<lparr>errBuff := []\<rparr>)
               else if getStandardOutput command = ''CAPTURE_AND_RETURN'' \<or> getStandardOutput command = ''RETURN''
               then
                 (let w0 = w\<lparr>errBuff := []\<rparr>;
                      w1 = try_send (createResponseMessage command w0 (errBuff w0) (outBuff w0)) w0;
                      w2 = w1\<lparr>responsecount := responsecount w1 + 1\<rparr>
                  in w2\<lparr>outBuff := []\<rparr>)
               else if getStandardError command = ''CAPTURE_AND_RETURN'' \<or> getStandardError command = ''RETURN''
               then
                 (let w0 = w\<lparr>outBuff := []\<rparr>;
                      w1 = try_send (createResponseMessage command w0 (errBuff w0) (outBuff w0)) w0;
                      w2 = w1\<lparr>responsecount := responsecount w1 + 1\<rparr>
                  in w2\<lparr>errBuff := []\<rparr>)
               else w\<lparr>outBuff := [], errBuff := []\<rparr>)
            else if outBuffsize \<noteq> 0 then
              (if getStandardOutput command = ''CAPTURE_AND_RETURN'' \<or> getStandardOutput command = ''RETURN''
               then
                 (let w0 = w\<lparr>errBuff := []\<rparr>;
                      w1 = try_send (createResponseMessage command w0 (errBuff w0) (outBuff w0)) w0;
                      w2 = w1\<lparr>responsecount := responsecount w1 + 1\<rparr>
                  in w2\<lparr>outBuff := []\<rparr>)
               else w\<lparr>outBuff := [], errBuff := []\<rparr>)
            else if errBuffsize \<noteq> 0 then
              (if getStandardError command = ''CAPTURE_AND_RETURN'' \<or> getStandardError command = ''RETURN''
               then
                 (let w0 = w\<lparr>outBuff := []\<rparr>;
                      w1 = try_send (createResponseMessage command w0 (errBuff w0) (outBuff w0)) w0;
                      w2 = w1\<lparr>responsecount := responsecount w1 + 1\<rparr>
                  in w2\<lparr>errBuff := []\<rparr>)
               else w\<lparr>outBuff := [], errBuff := []\<rparr>)
            else w)
         else w)"

subsection \<open>KAThread::checkAndSend\<close>

definition checkAndSend :: "KACommand \<Rightarrow> Worker \<Rightarrow> Worker" where
  "checkAndSend command w =
     (if mode (outputStream w) = ''RETURN'' \<or> mode (outputStream w) = ''CAPTURE_AND_RETURN'' then
        (if getStandardError command = ''CAPTURE'' \<or> getStandardError command = ''NO'' then
           (let w0 = w\<lparr>errBuff := []\<rparr>;
                w1 = try_send (createResponseMessage command w0 (errBuff w0) (outBuff w0)) w0
            in w1\<lparr>responsecount := responsecount w1 + 1\<rparr>)
         else
           (let w1 = try_send (createResponseMessage command w (errBuff w) (outBuff w)) w
            in w1\<lparr>responsecount := responsecount w1 + 1\<rparr>))
      else
        (if getStandardError command = ''CAPTURE'' \<or> getStandardError command = ''NO'' then w
         else
           (let w0 = w\<lparr>outBuff := []\<rparr>;
                w1 = try_send (createResponseMessage command w0 (errBuff w0) (outBuff w0)) w0
            in w1\<lparr>responsecount := responsecount w1 + 1\<rparr>)))"

subsection \<open>KAThread::checkAndWrite\<close>

text \<open>\<open>std::string::substr(pos, len)\<close>, for \<open>pos\<close> within the string (it is, at each
  call below: the size has just been compared with \<open>MaxBuffSize\<close>).\<close>

definition substr :: "string \<Rightarrow> nat \<Rightarrow> nat \<Rightarrow> string" where
  "substr s pos len = take len (drop pos s)"

definition MaxBuffSize :: nat where
  "MaxBuffSize = 1000"

text \<open>Appending the buffer of one reader to its capture file, when the mode asks for it
  and the file opens.\<close>

definition capture :: "bool \<Rightarrow> KAStreamReader \<Rightarrow> KAStreamReader" where
  "capture opens r =
     (if mode r = ''CAPTURE'' \<or> mode r = ''CAPTURE_AND_RETURN'' then
        (if opens then appendFile (buffer r) r else r)
      else r)"

text \<open>The first half: both stream buffers are appended to the real buffers, captured and
  cleared; a non-empty error buffer sets \<open>EXITSTATUS\<close>.\<close>

definition appendBuffers :: "bool \<Rightarrow> bool \<Rightarrow> Worker \<Rightarrow> Worker" where
  "appendBuffers outOpens errOpens w =
     (let w1 = w\<lparr>outBuff := outBuff w @ buffer (outputStream w)\<rparr>;
          w2 = w1\<lparr>outputStream := clearBuffer (capture outOpens (outputStream w1))\<rparr>;
          w3 = w2\<lparr>errBuff := errBuff w2 @ buffer (errorStream w2),
                   errAppended := errAppended w2 @ buffer (errorStream w2)\<rparr>;
          w4 = w3\<lparr>errorStream := clearBuffer (capture errOpens (errorStream w3))\<rparr>
      in if length (errBuff w4) > 0 then w4\<lparr>EXITSTATUS := 1\<rparr> else w4)"

definition checkAndWrite :: "KACommand \<Rightarrow> bool \<Rightarrow> bool \<Rightarrow> Worker \<Rightarrow> Worker" where
  "checkAndWrite command outOpens errOpens w =
     (let w4 = appendBuffers outOpens errOpens w;
          outBuffsize = length (outBuff w4);
          errBuffsize = length (errBuff w4)
      in if outBuffsize \<ge> MaxBuffSize \<or> errBuffsize \<ge> MaxBuffSize then
           (if outBuffsize \<ge> MaxBuffSize \<and> errBuffsize \<ge> MaxBuffSize then
              (let divisionOut = substr (outBuff w4) MaxBuffSize (outBuffsize - MaxBuffSize);
                   w5 = w4\<lparr>outBuff := substr (outBuff w4) 0 MaxBuffSize\<rparr>;
                   divisionErr = substr (errBuff w5) MaxBuffSize (errBuffsize - MaxBuffSize);
                   w6 = w5\<lparr>errBuff := substr (errBuff w5) 0 MaxBuffSize\<rparr>;
                   w7 = checkAndSend command w6;
                   w8 = w7\<lparr>outBuff := [], errBuff := []\<rparr>
               in w8\<lparr>outBuff := divisionOut, errBuff := divisionErr\<rparr>)
            else if outBuffsize \<ge> MaxBuffSize then
              (let divisionOut = substr (outBuff w4) MaxBuffSize (outBuffsize - MaxBuffSize);
                   w5 = w4\<lparr>outBuff := substr (outBuff w4) 0 MaxBuffSize\<rparr>;
                   w7 = checkAndSend command w5;
                   w8 = w7\<lparr>outBuff := [], errBuff := []\<rparr>
               in w8\<lparr>outBuff := divisionOut\<rparr>)
            else if errBuffsize \<ge> MaxBuffSize then
              (let divisionErr = substr (errBuff w4) MaxBuffSize (errBuffsize - MaxBuffSize);
                   w6 = w4\<lparr>errBuff := substr (errBuff w4) 0 MaxBuffSize\<rparr>;
                   w7 = checkAndSend command w6;
                   w8 = w7\<lparr>outBuff := [], errBuff := []\<rparr>
               in w8\<lparr>errBuff := divisionErr\<rparr>)
            else w4)
         else w4)"


subsection \<open>KAThread::optionReadSend\<close>

text \<open>Pid discovery (the \<open>waitpid\<close> loop at the head of \<open>optionReadSend\<close>). Each probe
  is the result of \<open>waitpid\<close> and, when that is 0, the number that \<open>atoi\<close> makes of the
  second \<open>pgrep\<close>. The result is the last \<open>waitpid\<close> result and \<open>processpid\<close>; no result
  when the probes end before the loop does.\<close>

fun findPid :: "int \<Rightarrow> (int \<times> int) list \<Rightarrow> int \<Rightarrow> (int \<times> int) option" where
  "findPid newpid [] ppid = None"
| "findPid newpid (probe # rest) ppid =
     (let result = fst probe
      in if result = 0 then
           (let ppid1 = snd probe
            in if ppid1 \<noteq> 0 then Some (result, ppid1) else findPid newpid rest newpid)
         else Some (result, ppid))"

text \<open>The checks of the working directory and of the user made by the supervisor before
  the loop, each with its literal message.\<close>

definition preExecChecks :: "Host \<Rightarrow> KACommand \<Rightarrow> Worker \<Rightarrow> Worker" where
  "preExecChecks h command w =
     (let (cwdOk, w1) = checkCWD h command w;
          w2 = (if \<not> cwdOk then
                  (let w1a = w1\<lparr>CWDERR := True\<rparr>
                   in try_send (ResponseMessage (getUuid command) (processpid w1a)
                        (getRequestSequenceNumber command) 1
                        ''Working Directory Does Not Exist on System'' []
                        (getSource command) (getTaskUuid command)) w1a)
                else w1);
          (uidOk, w3) = checkUID h command w2
      in if \<not> uidOk then
           (let w3a = w3\<lparr>UIDERR := True\<rparr>
            in try_send (ResponseMessage (getUuid command) (processpid w3a)
                 (getRequestSequenceNumber command) 1
                 ''User Does Not Exist on System'' []
                 (getSource command) (getTaskUuid command)) w3a)
         else w3)"

text \<open>The heartbeat message, sent when the heartbeat timer fires.\<close>

definition sendHeartbeat :: "KACommand \<Rightarrow> Worker \<Rightarrow> Worker" where
  "sendHeartbeat command w =
     (if outBuff w = [] \<and> errBuff w = [] then
        (let w1 = try_send (createResponseMessage command w [] []) w
         in w1\<lparr>responsecount := responsecount w1 + 1\<rparr>)
      else
        (let w0 = (if (getStandardOutput command = ''CAPTURE'' \<or> getStandardOutput command = ''NO'')
                      \<and> (getStandardError command = ''CAPTURE'' \<or> getStandardError command = ''NO'')
                   then w\<lparr>errBuff := [], outBuff := []\<rparr>
                   else if getStandardOutput command = ''CAPTURE'' \<or> getStandardOutput command = ''NO''
                   then w\<lparr>outBuff := []\<rparr>
                   else if getStandardError command = ''CAPTURE'' \<or> getStandardError command = ''NO''
                   then w\<lparr>errBuff := []\<rparr>
                   else w);
             w1 = try_send (createResponseMessage command w0 (errBuff w0) (outBuff w0)) w0;
             w2 = w1\<lparr>errBuff := [], outBuff := []\<rparr>
         in w2\<lparr>responsecount := responsecount w2 + 1\<rparr>))"

definition resetHeart :: "Tick \<Rightarrow> Timer" where
  "resetHeart k = \<lparr>startsec = resetSec k, overflag = False, exectimeout = 30, count = 0\<rparr>"

text \<open>The heartbeat part of one iteration: reset on activity, otherwise advance the
  heartbeat timer and send when it fires.\<close>

definition heartbeat :: "KACommand \<Rightarrow> Tick \<Rightarrow> Timer \<Rightarrow> Worker \<Rightarrow> Timer \<times> Worker" where
  "heartbeat command k th w =
     (if ACTFLAG w = True then (resetHeart k, w\<lparr>ACTFLAG := False\<rparr>)
      else
        (let (fired, th1) = checkExecutionTimeout (heartSec k) th
         in if fired then (resetHeart k, sendHeartbeat command w) else (th1, w)))"

text \<open>The reading part of one iteration: each stream whose select result is positive is
  read; activity on either sets \<open>ACTFLAG\<close>.\<close>

definition readPipes :: "Tick \<Rightarrow> Worker \<Rightarrow> Worker" where
  "readPipes k w =
     (let w1 = (if selectResult (outputStream w) = 0 then w
                else if selectResult (outputStream w) > 0
                then w\<lparr>outputStream := startReading (outRead k) (clearBuffer (outputStream w))\<rparr>
                else w);
          w2 = (if selectResult (errorStream w1) = 0 then w1
                else if selectResult (errorStream w1) > 0
                then w1\<lparr>errorStream := startReading (errRead k) (clearBuffer (errorStream w1))\<rparr>
                else w1)
      in if selectResult (outputStream w2) > 0 \<or> selectResult (errorStream w2) > 0
         then w2\<lparr>ACTFLAG := True\<rparr> else w2)"

text \<open>How the loop is left: by the execution timeout, by the \<open>break\<close> at the end of
  reading, or by \<open>return -1\<close> after a failed select.\<close>

datatype LoopExit = ExecTimeout | EndOfReading | SelectFailed

datatype Step = Again Timer Timer Worker | Leave LoopExit Worker

definition iteration :: "KACommand \<Rightarrow> Tick \<Rightarrow> Timer \<Rightarrow> Timer \<Rightarrow> Worker \<Rightarrow> Step" where
  "iteration command k te th w =
     (let w1 = w\<lparr>outputStream := startSelection (outSelect k) (outputStream w)\<rparr>;
          w2 = w1\<lparr>errorStream := startSelection (errSelect k) (errorStream w1)\<rparr>;
          (fired, te1) = checkExecutionTimeout (execSec k) te
      in if fired then Leave ExecTimeout w2
         else
           (let (th1, w3) = heartbeat command k th w2
            in if selectResult (outputStream w3) = - 1 \<or> selectResult (errorStream w3) = - 1
               then Leave SelectFailed w3
               else
                 (let w4 = readPipes k w3
                  in if readResult (outputStream w4) > 0 \<or> readResult (errorStream w4) > 0
                     then Again te1 th1 (checkAndWrite command (outOpenFile k) (errOpenFile k) w4)
                     else Leave EndOfReading w4)))"

text \<open>The loop \<open>while(true)\<close>: no result when the ticks end before the loop does.\<close>

fun multiplex :: "KACommand \<Rightarrow> Tick list \<Rightarrow> Timer \<Rightarrow> Timer \<Rightarrow> Worker \<Rightarrow> (LoopExit \<times> Worker) option" where
  "multiplex command [] te th w = None"
| "multiplex command (k # ks) te th w =
     (case iteration command k te th w of
        Again te1 th1 w1 \<Rightarrow> multiplex command ks te1 th1 w1
      | Leave e w1 \<Rightarrow> Some (e, w1))"

text \<open>After the loop: the timeout message and the kill when \<open>EXECTIMEOUT\<close> is set, then
  the exit message when both read results are 0.\<close>

definition sendTerminal :: "KACommand \<Rightarrow> bool \<Rightarrow> Worker \<Rightarrow> Worker" where
  "sendTerminal command EXECTIMEOUT w =
     (let w3 = (if EXECTIMEOUT = True then
                  (let w1 = lastCheckAndSend command w;
                       w2 = try_send (TimeoutMessage (getUuid command) (processpid w1)
                              (getRequestSequenceNumber command) (responsecount w1) [] []
                              (getSource command) (getTaskUuid command)) w1
                   in if processpid w2 \<noteq> 0
                      then w2\<lparr>sysCalls := sysCalls w2 @ [Kill (processpid w2)]\<rparr> else w2)
                else w)
      in if readResult (errorStream w3) = 0 \<and> readResult (outputStream w3) = 0 then
           (let exitcode = (if EXITSTATUS w3 \<noteq> 0 \<or> CWDERR w3 = True \<or> UIDERR w3 = True
                            then 1 else 0);
                w4 = lastCheckAndSend command w3
            in try_send (ExitMessage (getUuid command) (processpid w4)
                 (getRequestSequenceNumber command) (responsecount w4)
                 (getSource command) (getTaskUuid command) exitcode) w4)
         else w3)"

text \<open>The whole method. The result is the returned integer (\<open>true\<close> is 1) and the worker;
  no result when pid discovery or the loop does not end on the given answers.\<close>

definition optionReadSend :: "Env \<Rightarrow> KACommand \<Rightarrow> int \<Rightarrow> Worker \<Rightarrow> (int \<times> Worker) option" where
  "optionReadSend env command newpid w =
     (case findPid newpid (probes env) newpid of
        None \<Rightarrow> None
      | Some (result, ppid) \<Rightarrow>
          (let w1 = w\<lparr>processpid := (if result > 0 then newpid else ppid)\<rparr>;
               w2 = preExecChecks (host env) command w1;
               te = \<lparr>startsec = startSecond env, overflag = False,
                     exectimeout = getTimeout command, count = 0\<rparr>;
               th = \<lparr>startsec = startHeartSecond env, overflag = False,
                     exectimeout = 30, count = 0\<rparr>
           in case multiplex command (ticks env) te th w2 of
                None \<Rightarrow> None
              | Some (SelectFailed, w3) \<Rightarrow> Some (- 1, w3)
              | Some (ExecTimeout, w3) \<Rightarrow> Some (1, sendTerminal command True w3)
              | Some (EndOfReading, w3) \<Rightarrow> Some (1, sendTerminal command False w3)))"

subsection \<open>KAThread::threadFunction\<close>

text \<open>What the two forks and the two \<open>openPipe\<close> calls answer in the process that is
  followed.\<close>

record Forks =
  pid :: int
  outPipeOpens :: bool
  errPipeOpens :: bool
  newpid :: int

text \<open>How \<open>threadFunction\<close> ends in the process that is followed: it returns, or the
  process ends (by \<open>exit\<close> or by killing itself), or the supervision does not end on the
  given answers.\<close>

datatype Outcome = Returns bool Worker | Ends Worker | Unfinished

text \<open>The inner child: the two checks, then the command through the system shell.\<close>

definition innerChild :: "Host \<Rightarrow> KACommand \<Rightarrow> Worker \<Rightarrow> Outcome" where
  "innerChild h command w =
     (let (cwdOk, w1) = checkCWD h command w
      in if \<not> cwdOk then Ends (w1\<lparr>sysCalls := sysCalls w1 @ [KillSelf]\<rparr>)
         else
           (let (uidOk, w2) = checkUID h command w1
            in if \<not> uidOk then Ends (w2\<lparr>sysCalls := sysCalls w2 @ [KillSelf]\<rparr>)
               else
                 (let (e, w3) = createExecString command w2
                  in Ends (w3\<lparr>sysCalls := sysCalls w3 @ [System e]\<rparr>))))"


subsection \<open>The text that the exec string is made of\<close>

definition argumentText :: "string list \<Rightarrow> string" where
  "argumentText args = concat (map (\<lambda>arg. arg @ '' '') args)"

definition environmentText :: "(string \<times> string) list \<Rightarrow> string" where
  "environmentText envs =
     concat (map (\<lambda>it. '' export '' @ c_str (fst it) @ ''='' @ c_str (snd it) @ '' && '') envs)"


subsection \<open>Reading the message queue\<close>

text \<open>The messages that a step from \<open>w\<close> to \<open>w'\<close> has handed to the queue.\<close>

definition sentBy :: "Worker \<Rightarrow> Worker \<Rightarrow> Response list" where
  "sentBy w w' = drop (length (messageQueue w)) (messageQueue w')"

fun isProgress :: "Response \<Rightarrow> bool" where
  "isProgress (ResponseMessage u p q c e out s t) = True"
| "isProgress (TimeoutMessage u p q c e out s t) = False"
| "isProgress (ExitMessage u p q c s t x) = False"

fun isTimeout :: "Response \<Rightarrow> bool" where
  "isTimeout (ResponseMessage u p q c e out s t) = False"
| "isTimeout (TimeoutMessage u p q c e out s t) = True"
| "isTimeout (ExitMessage u p q c s t x) = False"

fun isExit :: "Response \<Rightarrow> bool" where
  "isExit (ResponseMessage u p q c e out s t) = False"
| "isExit (TimeoutMessage u p q c e out s t) = False"
| "isExit (ExitMessage u p q c s t x) = True"

text \<open>A stream mode that returns nothing to the controller.\<close>

definition blocked :: "string \<Rightarrow> bool" where
  "blocked m = (m = ''CAPTURE'' \<or> m = ''NO'')"

text \<open>A message that carries nothing for a stream whose mode of the command is blocked.\<close>

definition redacted :: "KACommand \<Rightarrow> Response \<Rightarrow> bool" where
  "redacted command m =
     ((blocked (getStandardOutput command) \<longrightarrow> rStdOut m = []) \<and>
      (blocked (getStandardError command) \<longrightarrow> rStdErr m = []))"

text \<open>\<open>w'\<close> has the queue of \<open>w\<close> followed by messages that all satisfy \<open>P\<close>.\<close>

definition extends :: "(Response \<Rightarrow> bool) \<Rightarrow> Worker \<Rightarrow> Worker \<Rightarrow> bool" where
  "extends P w w' = (\<exists>ms. messageQueue w' = messageQueue w @ ms \<and> (\<forall>m\<in>set ms. P m))"

text \<open>What the loop sends: progress messages, redacted when the output reader has the
  mode of the command (as \<open>threadFunction\<close> sets it).\<close>

definition loopMessage :: "KACommand \<Rightarrow> Worker \<Rightarrow> Response \<Rightarrow> bool" where
  "loopMessage command w m =
     (isProgress m \<and> (mode (outputStream w) = getStandardOutput command \<longrightarrow> redacted command m))"

text \<open>\<open>EXITSTATUS\<close> is 0 or 1, and 1 exactly when some byte was appended to \<open>errBuff\<close>;
  what \<open>errBuff\<close> holds was appended to it.\<close>

definition exitStatusInv :: "Worker \<Rightarrow> bool" where
  "exitStatusInv w =
     ((EXITSTATUS w = 0 \<or> EXITSTATUS w = 1) \<and>
      ((EXITSTATUS w \<noteq> 0) = (errAppended w \<noteq> [])) \<and>
      (errAppended w = [] \<longrightarrow> errBuff w = []))"

text \<open>What every step of the loop keeps: the queue is extended by loop messages; the mode
  of the output reader, the two error flags, the pid, the system calls and the log stay;
  the invariant of \<open>EXITSTATUS\<close> stays.\<close>

definition preserved :: "KACommand \<Rightarrow> Worker \<Rightarrow> Worker \<Rightarrow> bool" where
  "preserved c w w' =
     (extends (loopMessage c w) w w' \<and> mode (outputStream w') = mode (outputStream w) \<and>
      CWDERR w' = CWDERR w \<and> UIDERR w' = UIDERR w \<and> processpid w' = processpid w \<and>
      sysCalls w' = sysCalls w \<and> logged w' = logged w \<and>
      (exitStatusInv w \<longrightarrow> exitStatusInv w'))"

subsection \<open>Concrete inputs\<close>

text \<open>A reader before its first select and read (the constructor of \<open>KAStreamReader\<close> is
  not among the sources: its select and read results are inputs, here 0 and 1), and a
  command that lists a directory with one argument and one environment pair, returning both
  streams.\<close>

definition reader0 :: KAStreamReader where
  "reader0 = \<lparr>mode = [], path = [], identity = [], selectResult = 0, readResult = 1,
              buffer = [], fileData = []\<rparr>"

definition command0 :: KACommand where
  "command0 = \<lparr>getUuid = ''u'', getTaskUuid = ''t'', getRequestSequenceNumber = 7,
     getSource = ''s'', getProgram = ''ls'', getArguments = [''-l''],
     getEnvironment = [(''K'', ''V'')], getWorkingDirectory = ''/tmp'', getRunAs = ''root'',
     getStandardOutput = ''RETURN'', getStandardError = ''RETURN'',
     getStandardOutputPath = [], getStandardErrPath = [], getTimeout = 5\<rparr>"

definition timer0 :: Timer where
  "timer0 = \<lparr>startsec = 10, overflag = False, exectimeout = 100, count = 0\<rparr>"

definition commandNO :: KACommand where
  "commandNO = command0\<lparr>getStandardOutput := ''NO'', getStandardError := ''NO''\<rparr>"

definition commandCapture :: KACommand where
  "commandCapture = command0\<lparr>getStandardError := ''CAPTURE''\<rparr>"

text \<open>The thread as \<open>threadFunction\<close> hands it to \<open>optionReadSend\<close>: fresh, with the modes
  of the command on its readers.\<close>

definition worker0 :: "KACommand \<Rightarrow> Worker" where
  "worker0 command =
     (KAThread_new reader0 reader0 0 0 0)
       \<lparr>outputStream := reader0\<lparr>mode := getStandardOutput command\<rparr>,
        errorStream := reader0\<lparr>mode := getStandardError command\<rparr>\<rparr>"

text \<open>The same thread with bytes waiting in both buffers.\<close>

definition workerBuffers :: "KACommand \<Rightarrow> Worker" where
  "workerBuffers command = (worker0 command)\<lparr>outBuff := ''hi'', errBuff := ''oops''\<rparr>"

text \<open>A heartbeat timer one second before it fires.\<close>

definition heartTimerDue :: Timer where
  "heartTimerDue = \<lparr>startsec = 40, overflag = False, exectimeout = 30, count = 29\<rparr>"

text \<open>An iteration in which neither pipe has data, and one in which both are at end of
  file.\<close>

definition tick0 :: Tick where
  "tick0 = \<lparr>outSelect = 0, errSelect = 0, execSec = 0, heartSec = 0, resetSec = 0,
            outRead = None, errRead = None, outOpenFile = True, errOpenFile = True\<rparr>"

definition tickEOF :: Tick where
  "tickEOF = tick0\<lparr>outSelect := 1, errSelect := 1, outRead := Some [], errRead := Some []\<rparr>"

text \<open>The two timers as \<open>optionReadSend\<close> starts them.\<close>

definition execTimer0 :: "Env \<Rightarrow> KACommand \<Rightarrow> Timer" where
  "execTimer0 env c =
     \<lparr>startsec = startSecond env, overflag = False, exectimeout = getTimeout c, count = 0\<rparr>"

definition heartTimer0 :: "Env \<Rightarrow> Timer" where
  "heartTimer0 env = \<lparr>startsec = startHeartSecond env, overflag = False, exectimeout = 30, count = 0\<rparr>"

text \<open>A host, an environment with given iterations, and further commands and ticks.\<close>

definition host0 :: Host where
  "host0 = \<lparr>users = (\<lambda>u. if u = ''root'' then Some (0, 0)
                        else if u = ''alice'' then Some (1000, 1000) else None),
            directories = (\<lambda>d. d = ''/tmp'')\<rparr>"

definition envOf :: "Tick list \<Rightarrow> Env" where
  "envOf ks = \<lparr>host = host0, probes = [(0, 4242)], startSecond = 0, startHeartSecond = 0,
               ticks = ks\<rparr>"

definition tickData :: Tick where
  "tickData = tick0\<lparr>outSelect := 1, outRead := Some ''hi''\<rparr>"

definition tickErr :: Tick where
  "tickErr = tick0\<lparr>errSelect := 1, errRead := Some ''oops''\<rparr>"

definition commandNoUser :: KACommand where
  "commandNoUser = command0\<lparr>getRunAs := ''nosuchuser''\<rparr>"

definition commandNoDir :: KACommand where
  "commandNoDir = command0\<lparr>getWorkingDirectory := ''/nowhere''\<rparr>"

definition commandAlice :: KACommand where
  "commandAlice = command0\<lparr>getRunAs := ''alice''\<rparr>"


subsection \<open>A burst of output\<close>















section \<open>Properties\<close>

subsection \<open>What each operation sends and what it leaves alone\<close>

lemma sentBy_append [simp]: "messageQueue w' = messageQueue w @ ms \<Longrightarrow> sentBy w w' = ms"
  by (simp add: sentBy_def)

lemma checkAndSend_sent:
  "\<exists>ms. messageQueue (checkAndSend command w) = messageQueue w @ ms \<and> length ms \<le> 1 \<and>
        responsecount (checkAndSend command w) = responsecount w + int (length ms) \<and>
        (\<forall>m\<in>set ms. isProgress m \<and> rResponseCount m = responsecount w \<and>
             (rStdOut m = outBuff w \<or> rStdOut m = []) \<and> (rStdErr m = errBuff w \<or> rStdErr m = []) \<and>
             (blocked (mode (outputStream w)) \<longrightarrow> rStdOut m = []) \<and>
             (blocked (getStandardError command) \<longrightarrow> rStdErr m = [])) \<and>
        (blocked (mode (outputStream w)) \<and> blocked (getStandardError command) \<longrightarrow> ms = [])"
  by (auto simp: checkAndSend_def Let_def try_send_def createResponseMessage_def blocked_def)

lemma lastCheckAndSend_sent:
  "\<exists>ms. messageQueue (lastCheckAndSend command w) = messageQueue w @ ms \<and> length ms \<le> 1 \<and>
        responsecount (lastCheckAndSend command w) = responsecount w + int (length ms) \<and>
        (\<forall>m\<in>set ms. isProgress m \<and> rResponseCount m = responsecount w \<and>
             (rStdOut m = outBuff w \<or> rStdOut m = []) \<and> (rStdErr m = errBuff w \<or> rStdErr m = []) \<and>
             (blocked (getStandardOutput command) \<longrightarrow> rStdOut m = []) \<and>
             (blocked (getStandardError command) \<longrightarrow> rStdErr m = [])) \<and>
        (blocked (getStandardOutput command) \<and> blocked (getStandardError command) \<longrightarrow> ms = [])"
  by (auto simp: lastCheckAndSend_def Let_def try_send_def createResponseMessage_def blocked_def)

lemma sendHeartbeat_sent:
  "\<exists>m. messageQueue (sendHeartbeat command w) = messageQueue w @ [m] \<and>
        responsecount (sendHeartbeat command w) = responsecount w + 1 \<and>
        isProgress m \<and> rResponseCount m = responsecount w \<and>
             (rStdOut m = outBuff w \<or> rStdOut m = []) \<and> (rStdErr m = errBuff w \<or> rStdErr m = []) \<and>
             (blocked (getStandardOutput command) \<longrightarrow> rStdOut m = []) \<and>
             (blocked (getStandardError command) \<longrightarrow> rStdErr m = [])"
  by (auto simp: sendHeartbeat_def Let_def try_send_def createResponseMessage_def blocked_def)

lemma extends_same: "messageQueue w' = messageQueue w \<Longrightarrow> extends P w w'"
  by (simp add: extends_def)

lemma extends_trans: "extends P w w1 \<Longrightarrow> extends P w1 w2 \<Longrightarrow> extends P w w2"
  by (auto simp: extends_def)

lemma extends_mono: "extends P w w' \<Longrightarrow> (\<And>m. P m \<Longrightarrow> Q m) \<Longrightarrow> extends Q w w'"
  by (auto simp: extends_def)

lemma extends_sentBy: "extends P w w' \<Longrightarrow> messageQueue w' = messageQueue w @ sentBy w w' \<and> (\<forall>m\<in>set (sentBy w w'). P m)"
  by (auto simp: extends_def sentBy_def)

lemma checkAndSend_extends:
  "extends (loopMessage command w) w (checkAndSend command w)"
  using checkAndSend_sent [of command w]
  by (fastforce simp: extends_def loopMessage_def redacted_def)

lemma lastCheckAndSend_extends:
  "extends (\<lambda>m. isProgress m \<and> redacted command m) w (lastCheckAndSend command w)"
  using lastCheckAndSend_sent [of command w]
  by (fastforce simp: extends_def redacted_def)

lemma sendHeartbeat_extends:
  "extends (\<lambda>m. isProgress m \<and> redacted command m) w (sendHeartbeat command w)"
  using sendHeartbeat_sent [of command w]
  by (fastforce simp: extends_def redacted_def)

lemma checkAndSend_frame [simp]:
  "CWDERR (checkAndSend c w) = CWDERR w" "UIDERR (checkAndSend c w) = UIDERR w"
  "EXITSTATUS (checkAndSend c w) = EXITSTATUS w" "errAppended (checkAndSend c w) = errAppended w"
  "sysCalls (checkAndSend c w) = sysCalls w" "processpid (checkAndSend c w) = processpid w"
  "outputStream (checkAndSend c w) = outputStream w" "errorStream (checkAndSend c w) = errorStream w"
  "logged (checkAndSend c w) = logged w" "ACTFLAG (checkAndSend c w) = ACTFLAG w"
  by (simp_all add: checkAndSend_def Let_def try_send_def)

lemma lastCheckAndSend_frame [simp]:
  "CWDERR (lastCheckAndSend c w) = CWDERR w" "UIDERR (lastCheckAndSend c w) = UIDERR w"
  "EXITSTATUS (lastCheckAndSend c w) = EXITSTATUS w" "errAppended (lastCheckAndSend c w) = errAppended w"
  "sysCalls (lastCheckAndSend c w) = sysCalls w" "processpid (lastCheckAndSend c w) = processpid w"
  "outputStream (lastCheckAndSend c w) = outputStream w" "errorStream (lastCheckAndSend c w) = errorStream w"
  "logged (lastCheckAndSend c w) = logged w" "ACTFLAG (lastCheckAndSend c w) = ACTFLAG w"
  by (simp_all add: lastCheckAndSend_def Let_def try_send_def)

lemma lastCheckAndSend_buffers [simp]:
  "outBuff (lastCheckAndSend c w) = []" "errBuff (lastCheckAndSend c w) = []"
  by (auto simp: lastCheckAndSend_def Let_def try_send_def)

lemma sendHeartbeat_frame [simp]:
  "CWDERR (sendHeartbeat c w) = CWDERR w" "UIDERR (sendHeartbeat c w) = UIDERR w"
  "EXITSTATUS (sendHeartbeat c w) = EXITSTATUS w" "errAppended (sendHeartbeat c w) = errAppended w"
  "sysCalls (sendHeartbeat c w) = sysCalls w" "processpid (sendHeartbeat c w) = processpid w"
  "outputStream (sendHeartbeat c w) = outputStream w" "errorStream (sendHeartbeat c w) = errorStream w"
  "logged (sendHeartbeat c w) = logged w" "ACTFLAG (sendHeartbeat c w) = ACTFLAG w"
  by (simp_all add: sendHeartbeat_def Let_def try_send_def)

lemma capture_frame [simp]:
  "mode (capture b r) = mode r" "readResult (capture b r) = readResult r"
  "selectResult (capture b r) = selectResult r" "buffer (capture b r) = buffer r"
  by (simp_all add: capture_def appendFile_def)

lemma clearBuffer_frame [simp]:
  "mode (clearBuffer r) = mode r" "readResult (clearBuffer r) = readResult r"
  "selectResult (clearBuffer r) = selectResult r" "buffer (clearBuffer r) = []"
  by (simp_all add: clearBuffer_def)

lemma appendBuffers_frame [simp]:
  "CWDERR (appendBuffers a b w) = CWDERR w" "UIDERR (appendBuffers a b w) = UIDERR w"
  "sysCalls (appendBuffers a b w) = sysCalls w" "processpid (appendBuffers a b w) = processpid w"
  "logged (appendBuffers a b w) = logged w" "ACTFLAG (appendBuffers a b w) = ACTFLAG w"
  "messageQueue (appendBuffers a b w) = messageQueue w"
  "responsecount (appendBuffers a b w) = responsecount w"
  "mode (outputStream (appendBuffers a b w)) = mode (outputStream w)"
  "mode (errorStream (appendBuffers a b w)) = mode (errorStream w)"
  "readResult (outputStream (appendBuffers a b w)) = readResult (outputStream w)"
  "readResult (errorStream (appendBuffers a b w)) = readResult (errorStream w)"
  "selectResult (outputStream (appendBuffers a b w)) = selectResult (outputStream w)"
  "selectResult (errorStream (appendBuffers a b w)) = selectResult (errorStream w)"
  "buffer (outputStream (appendBuffers a b w)) = []"
  "buffer (errorStream (appendBuffers a b w)) = []"
  "outBuff (appendBuffers a b w) = outBuff w @ buffer (outputStream w)"
  "errBuff (appendBuffers a b w) = errBuff w @ buffer (errorStream w)"
  "errAppended (appendBuffers a b w) = errAppended w @ buffer (errorStream w)"
  by (simp_all add: appendBuffers_def Let_def)

lemma appendBuffers_exitStatus:
  "EXITSTATUS (appendBuffers a b w) = (if errBuff w @ buffer (errorStream w) \<noteq> [] then 1 else EXITSTATUS w)"
  by (simp add: appendBuffers_def Let_def)

lemma checkAndWrite_frame [simp]:
  "CWDERR (checkAndWrite c a b w) = CWDERR w" "UIDERR (checkAndWrite c a b w) = UIDERR w"
  "sysCalls (checkAndWrite c a b w) = sysCalls w" "processpid (checkAndWrite c a b w) = processpid w"
  "logged (checkAndWrite c a b w) = logged w" "ACTFLAG (checkAndWrite c a b w) = ACTFLAG w"
  "mode (outputStream (checkAndWrite c a b w)) = mode (outputStream w)"
  "mode (errorStream (checkAndWrite c a b w)) = mode (errorStream w)"
  "readResult (outputStream (checkAndWrite c a b w)) = readResult (outputStream w)"
  "readResult (errorStream (checkAndWrite c a b w)) = readResult (errorStream w)"
  "buffer (outputStream (checkAndWrite c a b w)) = []"
  "buffer (errorStream (checkAndWrite c a b w)) = []"
  "errAppended (checkAndWrite c a b w) = errAppended w @ buffer (errorStream w)"
  "EXITSTATUS (checkAndWrite c a b w) = EXITSTATUS (appendBuffers a b w)"
  by (simp_all add: checkAndWrite_def Let_def)

subsection \<open>One call of checkAndWrite\<close>

lemma checkAndWrite_queue:
  "messageQueue (checkAndWrite c a b w) = messageQueue w \<or>
   (\<exists>v. messageQueue (checkAndWrite c a b w) = messageQueue (checkAndSend c v) \<and>
        responsecount (checkAndWrite c a b w) = responsecount (checkAndSend c v) \<and>
        messageQueue v = messageQueue w \<and> responsecount v = responsecount w \<and>
        mode (outputStream v) = mode (outputStream w) \<and>
        length (outBuff v) \<le> MaxBuffSize \<and> length (errBuff v) \<le> MaxBuffSize)"
proof -
  let ?w4 = "appendBuffers a b w"
  consider (both) "MaxBuffSize \<le> length (outBuff ?w4)" "MaxBuffSize \<le> length (errBuff ?w4)"
    | (out) "MaxBuffSize \<le> length (outBuff ?w4)" "\<not> MaxBuffSize \<le> length (errBuff ?w4)"
    | (err) "\<not> MaxBuffSize \<le> length (outBuff ?w4)" "MaxBuffSize \<le> length (errBuff ?w4)"
    | (none) "\<not> MaxBuffSize \<le> length (outBuff ?w4)" "\<not> MaxBuffSize \<le> length (errBuff ?w4)"
    by blast
  then show ?thesis
  proof cases
    case both
    then show ?thesis
      apply (simp add: checkAndWrite_def Let_def)
      apply (rule disjI2, rule exI, rule conjI, rule refl)
      apply (auto simp: substr_def min_def)
      done
  next
    case out
    then show ?thesis
      apply (simp add: checkAndWrite_def Let_def)
      apply (rule disjI2, rule exI, rule conjI, rule refl)
      apply (auto simp: substr_def min_def)
      done
  next
    case err
    then show ?thesis
      apply (simp add: checkAndWrite_def Let_def)
      apply (rule disjI2, rule exI, rule conjI, rule refl)
      apply (auto simp: substr_def min_def)
      done
  next
    case none
    then show ?thesis by (simp add: checkAndWrite_def Let_def)
  qed
qed

lemma checkAndWrite_responsecount_same:
  "messageQueue (checkAndWrite c a b w) = messageQueue w \<Longrightarrow> responsecount (checkAndWrite c a b w) = responsecount w"
  using checkAndSend_sent
  by (auto simp: checkAndWrite_def Let_def checkAndSend_def try_send_def split: if_splits)

lemma checkAndWrite_extends:
  "extends (loopMessage command w) w (checkAndWrite command a b w)"
proof -
  from checkAndWrite_queue [of command a b w] show ?thesis
  proof
    assume "messageQueue (checkAndWrite command a b w) = messageQueue w"
    then show ?thesis by (rule extends_same)
  next
    assume "\<exists>v. messageQueue (checkAndWrite command a b w) = messageQueue (checkAndSend command v) \<and>
        responsecount (checkAndWrite command a b w) = responsecount (checkAndSend command v) \<and>
        messageQueue v = messageQueue w \<and> responsecount v = responsecount w \<and>
        mode (outputStream v) = mode (outputStream w) \<and>
        length (outBuff v) \<le> MaxBuffSize \<and> length (errBuff v) \<le> MaxBuffSize"
    then obtain v where v: "messageQueue (checkAndWrite command a b w) = messageQueue (checkAndSend command v)"
      "messageQueue v = messageQueue w" "mode (outputStream v) = mode (outputStream w)" by blast
    from checkAndSend_extends [of command v] v show ?thesis
      by (simp add: extends_def loopMessage_def)
  qed
qed

lemma checkAndWrite_exitStatusInv:
  "exitStatusInv w \<Longrightarrow> exitStatusInv (checkAndWrite c a b w)"
  by (auto simp: exitStatusInv_def appendBuffers_exitStatus checkAndWrite_def Let_def substr_def)

subsection \<open>One iteration, and the loop\<close>

lemma startSelection_frame [simp]:
  "mode (startSelection n r) = mode r" "readResult (startSelection n r) = readResult r"
  "selectResult (startSelection n r) = n" "buffer (startSelection n r) = buffer r"
  by (simp_all add: startSelection_def)

lemma startReading_mode [simp]: "mode (startReading rd r) = mode r"
  by (simp add: startReading_def split: option.splits)

lemma startReading_selectResult [simp]: "selectResult (startReading rd r) = selectResult r"
  by (simp add: startReading_def split: option.splits)

lemma heartbeat_frame [simp]:
  "CWDERR (snd (heartbeat c k th w)) = CWDERR w" "UIDERR (snd (heartbeat c k th w)) = UIDERR w"
  "EXITSTATUS (snd (heartbeat c k th w)) = EXITSTATUS w"
  "errAppended (snd (heartbeat c k th w)) = errAppended w"
  "sysCalls (snd (heartbeat c k th w)) = sysCalls w" "processpid (snd (heartbeat c k th w)) = processpid w"
  "outputStream (snd (heartbeat c k th w)) = outputStream w"
  "errorStream (snd (heartbeat c k th w)) = errorStream w"
  "logged (snd (heartbeat c k th w)) = logged w"
  by (simp_all add: heartbeat_def Let_def split_def)

lemma heartbeat_extends:
  "extends (\<lambda>m. isProgress m \<and> redacted c m) w (snd (heartbeat c k th w))"
  using sendHeartbeat_extends [of c w]
  by (simp add: heartbeat_def Let_def split_def extends_same)

lemma sendHeartbeat_errBuff: "errBuff (sendHeartbeat c w) = []"
  by (simp add: sendHeartbeat_def Let_def try_send_def)

lemma heartbeat_exitStatusInv: "exitStatusInv w \<Longrightarrow> exitStatusInv (snd (heartbeat c k th w))"
  by (auto simp: exitStatusInv_def heartbeat_def Let_def split_def sendHeartbeat_errBuff)

lemma readPipes_frame [simp]:
  "CWDERR (readPipes k w) = CWDERR w" "UIDERR (readPipes k w) = UIDERR w"
  "EXITSTATUS (readPipes k w) = EXITSTATUS w" "errAppended (readPipes k w) = errAppended w"
  "sysCalls (readPipes k w) = sysCalls w" "processpid (readPipes k w) = processpid w"
  "logged (readPipes k w) = logged w" "messageQueue (readPipes k w) = messageQueue w"
  "responsecount (readPipes k w) = responsecount w"
  "outBuff (readPipes k w) = outBuff w" "errBuff (readPipes k w) = errBuff w"
  "mode (outputStream (readPipes k w)) = mode (outputStream w)"
  "mode (errorStream (readPipes k w)) = mode (errorStream w)"
  by (simp_all add: readPipes_def Let_def)

lemma readPipes_exitStatusInv: "exitStatusInv w \<Longrightarrow> exitStatusInv (readPipes k w)"
  by (auto simp: exitStatusInv_def)

lemma iteration_unfold:
  "iteration c k te th w =
     (if fst (checkExecutionTimeout (execSec k) te)
      then Leave ExecTimeout
             (w\<lparr>outputStream := startSelection (outSelect k) (outputStream w),
                errorStream := startSelection (errSelect k) (errorStream w)\<rparr>)
      else if outSelect k = - 1 \<or> errSelect k = - 1
      then Leave SelectFailed
             (snd (heartbeat c k th
               (w\<lparr>outputStream := startSelection (outSelect k) (outputStream w),
                  errorStream := startSelection (errSelect k) (errorStream w)\<rparr>)))
      else if readResult (outputStream (readPipes k (snd (heartbeat c k th
               (w\<lparr>outputStream := startSelection (outSelect k) (outputStream w),
                  errorStream := startSelection (errSelect k) (errorStream w)\<rparr>))))) > 0
            \<or> readResult (errorStream (readPipes k (snd (heartbeat c k th
               (w\<lparr>outputStream := startSelection (outSelect k) (outputStream w),
                  errorStream := startSelection (errSelect k) (errorStream w)\<rparr>))))) > 0
      then Again (snd (checkExecutionTimeout (execSec k) te))
             (fst (heartbeat c k th
               (w\<lparr>outputStream := startSelection (outSelect k) (outputStream w),
                  errorStream := startSelection (errSelect k) (errorStream w)\<rparr>)))
             (checkAndWrite c (outOpenFile k) (errOpenFile k)
               (readPipes k (snd (heartbeat c k th
                 (w\<lparr>outputStream := startSelection (outSelect k) (outputStream w),
                    errorStream := startSelection (errSelect k) (errorStream w)\<rparr>)))))
      else Leave EndOfReading
             (readPipes k (snd (heartbeat c k th
               (w\<lparr>outputStream := startSelection (outSelect k) (outputStream w),
                  errorStream := startSelection (errSelect k) (errorStream w)\<rparr>)))))"
  by (simp add: iteration_def Let_def split_def)

lemma loopMessage_mode:
  "mode (outputStream v) = mode (outputStream w) \<Longrightarrow> loopMessage c v = loopMessage c w"
  by (rule ext) (simp add: loopMessage_def)

lemma preserved_trans: "preserved c w w1 \<Longrightarrow> preserved c w1 w2 \<Longrightarrow> preserved c w w2"
  unfolding preserved_def
  using loopMessage_mode [of w1 w c] extends_trans [of "loopMessage c w" w w1 w2]
  by simp

lemma preserved_selections:
  "preserved c w (w\<lparr>outputStream := startSelection a (outputStream w),
                   errorStream := startSelection b (errorStream w)\<rparr>)"
  by (auto simp: preserved_def extends_same exitStatusInv_def)

lemma preserved_heartbeat: "preserved c w (snd (heartbeat c k th w))"
  using heartbeat_extends [of c w k th] heartbeat_exitStatusInv [of w c k th]
  by (auto simp: preserved_def loopMessage_def elim: extends_mono)

lemma preserved_readPipes: "preserved c w (readPipes k w)"
  by (simp add: preserved_def extends_same readPipes_exitStatusInv)

lemma preserved_checkAndWrite: "preserved c w (checkAndWrite c a b w)"
  by (simp add: preserved_def checkAndWrite_extends checkAndWrite_exitStatusInv)

lemma preserved_upto_heartbeat:
  "preserved c w (snd (heartbeat c k th
     (w\<lparr>outputStream := startSelection a (outputStream w),
        errorStream := startSelection b (errorStream w)\<rparr>)))"
  by (rule preserved_trans [OF preserved_selections preserved_heartbeat])

lemma preserved_upto_readPipes:
  "preserved c w (readPipes k (snd (heartbeat c k th
     (w\<lparr>outputStream := startSelection a (outputStream w),
        errorStream := startSelection b (errorStream w)\<rparr>))))"
  by (rule preserved_trans [OF preserved_upto_heartbeat preserved_readPipes])

lemma preserved_upto_checkAndWrite:
  "preserved c w (checkAndWrite c x y (readPipes k (snd (heartbeat c k th
     (w\<lparr>outputStream := startSelection a (outputStream w),
        errorStream := startSelection b (errorStream w)\<rparr>)))))"
  by (rule preserved_trans [OF preserved_upto_readPipes preserved_checkAndWrite])

lemma iteration_preserved:
  "iteration c k te th w = Again te' th' w' \<Longrightarrow> preserved c w w'"
  "iteration c k te th w = Leave e w' \<Longrightarrow> preserved c w w'"
  by (auto simp: iteration_unfold split: if_splits
      intro: preserved_selections preserved_upto_heartbeat preserved_upto_readPipes
        preserved_upto_checkAndWrite)

lemma multiplex_preserved:
  "multiplex c ks te th w = Some (e, w') \<Longrightarrow> preserved c w w'"
proof (induction ks arbitrary: te th w)
  case Nil
  then show ?case by simp
next
  case (Cons k ks)
  show ?case
  proof (cases "iteration c k te th w")
    case (Again te1 th1 w1)
    with Cons.prems have "multiplex c ks te1 th1 w1 = Some (e, w')" by simp
    then have "preserved c w1 w'" by (rule Cons.IH)
    with iteration_preserved(1) [OF Again] show ?thesis by (rule preserved_trans)
  next
    case (Leave e1 w1)
    with Cons.prems have "e1 = e" "w1 = w'" by simp_all
    with iteration_preserved(2) [OF Leave] show ?thesis by simp
  qed
qed

subsection \<open>The exec string\<close>

lemma appendArguments_append: "appendArguments as acc = acc @ argumentText as"
  by (induction as arbitrary: acc) (auto simp: argumentText_def)

lemma appendEnvironment_append: "appendEnvironment es acc = acc @ environmentText es"
  by (induction es arbitrary: acc) (auto simp: Let_def environmentText_def)

lemma argumentText_Nil: "(argumentText as = []) = (as = [])"
  by (cases as) (auto simp: argumentText_def)

lemma environmentText_Nil: "(environmentText es = []) = (es = [])"
  by (cases es) (auto simp: environmentText_def)

text \<open>
  C10. \<open>createExecString\<close> is not idempotent. On a thread whose members \<open>argument\<close> and
  \<open>environment\<close> are still empty, the first call returns the export fragments, the
  program and the arguments once; a second call on the same thread returns every export
  fragment twice and every argument twice, and, when the command has an argument or an
  environment pair, a strictly longer string.
\<close>

theorem createExecString_second_call_doubles:
  assumes "getArguments command \<noteq> [] \<or> getEnvironment command \<noteq> []"
      and "argument w = []" and "environment w = []"
  shows "fst (createExecString command w) =
           environmentText (getEnvironment command) @ getProgram command @ '' '' @
           argumentText (getArguments command) \<and>
         fst (createExecString command (snd (createExecString command w))) =
           environmentText (getEnvironment command) @ environmentText (getEnvironment command) @
           getProgram command @ '' '' @
           argumentText (getArguments command) @ argumentText (getArguments command) \<and>
         length (fst (createExecString command w)) <
           length (fst (createExecString command (snd (createExecString command w))))"
  using assms
  by (auto simp: createExecString_def Let_def appendArguments_append appendEnvironment_append
      argumentText_Nil environmentText_Nil)

theorem createExecString_second_call_doubles_witness:
  "getArguments command0 \<noteq> [] \<and>
   argument (KAThread_new reader0 reader0 0 0 0) = [] \<and>
   environment (KAThread_new reader0 reader0 0 0 0) = [] \<and>
   fst (createExecString command0 (KAThread_new reader0 reader0 0 0 0)) =
     '' export K=V && ls -l '' \<and>
   fst (createExecString command0
          (snd (createExecString command0 (KAThread_new reader0 reader0 0 0 0)))) =
     '' export K=V &&  export K=V && ls -l -l ''"
  using createExecString_second_call_doubles [of command0 "KAThread_new reader0 reader0 0 0 0"]
  by (simp add: command0_def KAThread_new_def argumentText_def environmentText_def c_str_def)

subsection \<open>The tick of a timer\<close>

lemma uint_sub_le_59: "(s::uint) < c \<Longrightarrow> c \<le> 59 \<Longrightarrow> c - s \<le> 59"
  by unat_arith

text \<open>
  C7, as stated, fails: with the previous tick at 10, the latch off and the clock at 59,
  the first part of the claim says that the latch stays off, and the call arms it.
\<close>

theorem checkExecutionTimeout_latch_counterexample:
  "startsec timer0 < 59 \<and> overflag timer0 = False \<and>
   overflag (snd (checkExecutionTimeout 59 timer0)) = True"
  by (simp add: checkExecutionTimeout_def timer0_def)

text \<open>
  C7, amended. A call with \<open>exectimeout = 0\<close> changes nothing. A call with
  \<open>exectimeout \<noteq> 0\<close> and a second of the minute \<open>currentsec \<le> 59\<close>: when
  \<open>currentsec > startsec\<close> and the latch is off, the count advances by exactly
  \<open>currentsec - startsec\<close>, and unless \<open>currentsec = 59\<close> the latch stays off and
  \<open>startsec\<close> becomes \<open>currentsec\<close>; when \<open>currentsec = 59\<close> the latch is armed and
  \<open>startsec\<close> is reset to 0; the call never adds more than 59 to the count.
\<close>

theorem checkExecutionTimeout_tick:
  "(exectimeout t = 0 \<longrightarrow> checkExecutionTimeout currentsec t = (False, t)) \<and>
   (exectimeout t \<noteq> 0 \<and> currentsec \<le> 59 \<longrightarrow>
      (startsec t < currentsec \<and> \<not> overflag t \<longrightarrow>
         count (snd (checkExecutionTimeout currentsec t)) = count t + (currentsec - startsec t) \<and>
         (currentsec \<noteq> 59 \<longrightarrow>
            \<not> overflag (snd (checkExecutionTimeout currentsec t)) \<and>
            startsec (snd (checkExecutionTimeout currentsec t)) = currentsec)) \<and>
      (currentsec = 59 \<longrightarrow>
         overflag (snd (checkExecutionTimeout currentsec t)) \<and>
         startsec (snd (checkExecutionTimeout currentsec t)) = 0) \<and>
      count (snd (checkExecutionTimeout currentsec t)) - count t \<le> 59)"
  by (auto simp: checkExecutionTimeout_def Let_def uint_sub_le_59)

theorem checkExecutionTimeout_tick_witness:
  "exectimeout (timer0\<lparr>exectimeout := 0\<rparr>) = 0 \<and>
   checkExecutionTimeout 20 (timer0\<lparr>exectimeout := 0\<rparr>) = (False, timer0\<lparr>exectimeout := 0\<rparr>) \<and>
   exectimeout timer0 \<noteq> 0 \<and> (20::uint) \<le> 59 \<and> startsec timer0 < 20 \<and> \<not> overflag timer0 \<and>
   (20::uint) \<noteq> 59 \<and>
   count (snd (checkExecutionTimeout 20 timer0)) = 10 \<and>
   \<not> overflag (snd (checkExecutionTimeout 20 timer0)) \<and>
   startsec (snd (checkExecutionTimeout 20 timer0)) = 20 \<and>
   count (snd (checkExecutionTimeout 59 timer0)) = 49 \<and>
   overflag (snd (checkExecutionTimeout 59 timer0)) \<and>
   startsec (snd (checkExecutionTimeout 59 timer0)) = 0 \<and>
   count (snd (checkExecutionTimeout 59 timer0)) - count timer0 \<le> 59"
  using checkExecutionTimeout_tick [of "timer0\<lparr>exectimeout := 0\<rparr>" 20]
        checkExecutionTimeout_tick [of timer0 20]
        checkExecutionTimeout_tick [of timer0 59]
  by (simp add: timer0_def)

subsection \<open>Redaction of blocked streams\<close>

text \<open>
  C5, as stated, fails: with both stream modes \<open>NO\<close> the claim says that no progress
  message is sent at all, and the heartbeat sends one (with both payloads empty).
\<close>

theorem heartbeat_sends_when_blocked_counterexample:
  "blocked (getStandardOutput commandNO) \<and> blocked (getStandardError commandNO) \<and>
   sentBy (worker0 commandNO)
     (snd (heartbeat commandNO (tick0\<lparr>heartSec := 41\<rparr>) heartTimerDue (worker0 commandNO))) =
     [ResponseMessage ''u'' 0 7 1 [] [] ''s'' ''t'']"
  by code_simp

text \<open>
  C5, amended. On a thread whose output reader has the mode of the command, every message
  sent by \<open>checkAndSend\<close>, by \<open>lastCheckAndSend\<close>, by the heartbeat and by the whole loop
  is a progress message whose payload is empty for each stream whose mode is \<open>CAPTURE\<close>
  or \<open>NO\<close>. When both modes are \<open>CAPTURE\<close> or \<open>NO\<close>, \<open>checkAndSend\<close> and
  \<open>lastCheckAndSend\<close> send nothing. The heartbeat always sends exactly one message.
\<close>

theorem progress_redacted:
  assumes "mode (outputStream w) = getStandardOutput command"
  shows "(\<forall>m\<in>set (sentBy w (checkAndSend command w)). isProgress m \<and> redacted command m) \<and>
         (\<forall>m\<in>set (sentBy w (lastCheckAndSend command w)). isProgress m \<and> redacted command m) \<and>
         (\<forall>m\<in>set (sentBy w (sendHeartbeat command w)). isProgress m \<and> redacted command m) \<and>
         (\<forall>ks te th e w'. multiplex command ks te th w = Some (e, w') \<longrightarrow>
            (\<forall>m\<in>set (sentBy w w'). isProgress m \<and> redacted command m)) \<and>
         (blocked (getStandardOutput command) \<and> blocked (getStandardError command) \<longrightarrow>
            sentBy w (checkAndSend command w) = [] \<and> sentBy w (lastCheckAndSend command w) = []) \<and>
         length (sentBy w (sendHeartbeat command w)) = 1"
proof (intro conjI allI impI)
  from checkAndSend_extends [of command w] assms
  show "\<forall>m\<in>set (sentBy w (checkAndSend command w)). isProgress m \<and> redacted command m"
    by (auto simp: extends_def loopMessage_def)
  from lastCheckAndSend_extends [of command w]
  show "\<forall>m\<in>set (sentBy w (lastCheckAndSend command w)). isProgress m \<and> redacted command m"
    by (auto simp: extends_def)
  from sendHeartbeat_extends [of command w]
  show "\<forall>m\<in>set (sentBy w (sendHeartbeat command w)). isProgress m \<and> redacted command m"
    by (auto simp: extends_def)
  from sendHeartbeat_sent [of command w]
  show "length (sentBy w (sendHeartbeat command w)) = 1" by auto
next
  fix ks te th e w'
  assume "multiplex command ks te th w = Some (e, w')"
  then have "extends (loopMessage command w) w w'"
    using multiplex_preserved by (simp add: preserved_def)
  with assms show "\<forall>m\<in>set (sentBy w w'). isProgress m \<and> redacted command m"
    by (auto simp: extends_def loopMessage_def)
next
  assume b: "blocked (getStandardOutput command) \<and> blocked (getStandardError command)"
  from checkAndSend_sent [of command w] b assms
  show "sentBy w (checkAndSend command w) = []" by auto
  from lastCheckAndSend_sent [of command w] b
  show "sentBy w (lastCheckAndSend command w) = []" by auto
qed

theorem progress_redacted_witness:
  "mode (outputStream (workerBuffers commandCapture)) = getStandardOutput commandCapture \<and>
   blocked (getStandardError commandCapture) \<and>
   sentBy (workerBuffers commandCapture)
     (lastCheckAndSend commandCapture (workerBuffers commandCapture)) =
     [ResponseMessage ''u'' 0 7 1 [] ''hi'' ''s'' ''t''] \<and>
   redacted commandCapture (ResponseMessage ''u'' 0 7 1 [] ''hi'' ''s'' ''t'') \<and>
   multiplex commandCapture [tick0\<lparr>heartSec := 41\<rparr>, tickEOF] heartTimerDue heartTimerDue
     (workerBuffers commandCapture) \<noteq> None \<and>
   mode (outputStream (workerBuffers commandNO)) = getStandardOutput commandNO \<and>
   blocked (getStandardOutput commandNO) \<and> blocked (getStandardError commandNO) \<and>
   sentBy (workerBuffers commandNO) (lastCheckAndSend commandNO (workerBuffers commandNO)) = []"
proof -
  have h1: "mode (outputStream (workerBuffers commandCapture)) = getStandardOutput commandCapture"
    by code_simp
  have h2: "mode (outputStream (workerBuffers commandNO)) = getStandardOutput commandNO"
    by code_simp
  have b1: "blocked (getStandardError commandCapture)" by code_simp
  have b2: "blocked (getStandardOutput commandNO) \<and> blocked (getStandardError commandNO)"
    by code_simp
  have s1: "sentBy (workerBuffers commandCapture)
     (lastCheckAndSend commandCapture (workerBuffers commandCapture)) =
     [ResponseMessage ''u'' 0 7 1 [] ''hi'' ''s'' ''t'']"
    by code_simp
  have m1: "multiplex commandCapture [tick0\<lparr>heartSec := 41\<rparr>, tickEOF] heartTimerDue heartTimerDue
     (workerBuffers commandCapture) \<noteq> None"
    by code_simp
  from progress_redacted [OF h1] s1
  have r1: "redacted commandCapture (ResponseMessage ''u'' 0 7 1 [] ''hi'' ''s'' ''t'')" by simp
  from progress_redacted [OF h2] b2
  have e2: "sentBy (workerBuffers commandNO) (lastCheckAndSend commandNO (workerBuffers commandNO)) = []"
    by blast
  from h1 h2 b1 b2 s1 m1 r1 e2 show ?thesis by blast
qed

subsection \<open>A whole run of optionReadSend\<close>

lemma preExecChecks_queue:
  "messageQueue (preExecChecks h c w) = messageQueue w @
     (if directories h (getWorkingDirectory c) then []
      else [ResponseMessage (getUuid c) (processpid w) (getRequestSequenceNumber c) 1
              ''Working Directory Does Not Exist on System'' [] (getSource c) (getTaskUuid c)]) @
     (if users h (getRunAs c) = None
      then [ResponseMessage (getUuid c) (processpid w) (getRequestSequenceNumber c) 1
              ''User Does Not Exist on System'' [] (getSource c) (getTaskUuid c)]
      else [])"
  by (auto simp: preExecChecks_def checkCWD_def checkUID_def try_send_def Let_def split: option.splits)

lemma preExecChecks_sysCalls:
  "sysCalls (preExecChecks h c w) = sysCalls w @ [Chdir (getWorkingDirectory c),
     (case users h (getRunAs c) of Some p \<Rightarrow> DoSetuid (snd p) | None \<Rightarrow> UndoSetuid (ruid w))]"
  by (auto simp: preExecChecks_def checkCWD_def checkUID_def try_send_def Let_def split: option.splits)

lemma preExecChecks_frame [simp]:
  "CWDERR (preExecChecks h c w) = (CWDERR w \<or> \<not> directories h (getWorkingDirectory c))"
  "UIDERR (preExecChecks h c w) = (UIDERR w \<or> users h (getRunAs c) = None)"
  "EXITSTATUS (preExecChecks h c w) = EXITSTATUS w"
  "errAppended (preExecChecks h c w) = errAppended w"
  "errBuff (preExecChecks h c w) = errBuff w" "outBuff (preExecChecks h c w) = outBuff w"
  "processpid (preExecChecks h c w) = processpid w"
  "responsecount (preExecChecks h c w) = responsecount w"
  "outputStream (preExecChecks h c w) = outputStream w"
  "errorStream (preExecChecks h c w) = errorStream w"
  "logged (preExecChecks h c w) = logged w"
  by (auto simp: preExecChecks_def checkCWD_def checkUID_def try_send_def Let_def split: option.splits)

lemma lastCheckAndSend_empty:
  "outBuff w = [] \<Longrightarrow> errBuff w = [] \<Longrightarrow> lastCheckAndSend c w = w"
  by (simp add: lastCheckAndSend_def)

lemma sendTerminal_frame [simp]:
  "CWDERR (sendTerminal c t w) = CWDERR w" "UIDERR (sendTerminal c t w) = UIDERR w"
  "EXITSTATUS (sendTerminal c t w) = EXITSTATUS w" "errAppended (sendTerminal c t w) = errAppended w"
  "processpid (sendTerminal c t w) = processpid w"
  "outputStream (sendTerminal c t w) = outputStream w" "errorStream (sendTerminal c t w) = errorStream w"
  "logged (sendTerminal c t w) = logged w"
  by (simp_all add: sendTerminal_def Let_def try_send_def)

lemma sendTerminal_sysCalls:
  "sysCalls (sendTerminal c t w) = sysCalls w @ (if t \<and> processpid w \<noteq> 0 then [Kill (processpid w)] else [])"
  by (simp add: sendTerminal_def Let_def try_send_def)

lemma sendTerminal_queue:
  "messageQueue (sendTerminal c t w) = messageQueue w @
     (if t \<or> (readResult (errorStream w) = 0 \<and> readResult (outputStream w) = 0)
      then sentBy w (lastCheckAndSend c w) else []) @
     (if t then [TimeoutMessage (getUuid c) (processpid w) (getRequestSequenceNumber c)
                   (responsecount (lastCheckAndSend c w)) [] [] (getSource c) (getTaskUuid c)]
      else []) @
     (if readResult (errorStream w) = 0 \<and> readResult (outputStream w) = 0
      then [ExitMessage (getUuid c) (processpid w) (getRequestSequenceNumber c)
              (responsecount (lastCheckAndSend c w)) (getSource c) (getTaskUuid c)
              (if EXITSTATUS w \<noteq> 0 \<or> CWDERR w \<or> UIDERR w then 1 else 0)]
      else [])"
proof -
  obtain ms where ms: "messageQueue (lastCheckAndSend c w) = messageQueue w @ ms"
    using lastCheckAndSend_sent [of c w] by blast
  then have s: "sentBy w (lastCheckAndSend c w) = ms" by simp
  have e: "lastCheckAndSend c (lastCheckAndSend c w\<lparr>messageQueue := q, sysCalls := k\<rparr>) =
           lastCheckAndSend c w\<lparr>messageQueue := q, sysCalls := k\<rparr>" for q k
    by (rule lastCheckAndSend_empty) simp_all
  have e': "lastCheckAndSend c (lastCheckAndSend c w\<lparr>messageQueue := q\<rparr>) =
           lastCheckAndSend c w\<lparr>messageQueue := q\<rparr>" for q
    by (rule lastCheckAndSend_empty) simp_all
  show ?thesis
    unfolding s
    by (simp add: sendTerminal_def Let_def try_send_def ms e e')
qed

lemma optionReadSend_cases:
  assumes "optionReadSend env c npid w = Some (r, w')"
  obtains (failed) p w3 where
      "multiplex c (ticks env) (execTimer0 env c) (heartTimer0 env)
         (preExecChecks (host env) c (w\<lparr>processpid := p\<rparr>)) = Some (SelectFailed, w3)"
      "r = - 1" "w' = w3"
    | (timeout) p w3 where
      "multiplex c (ticks env) (execTimer0 env c) (heartTimer0 env)
         (preExecChecks (host env) c (w\<lparr>processpid := p\<rparr>)) = Some (ExecTimeout, w3)"
      "r = 1" "w' = sendTerminal c True w3"
    | (eof) p w3 where
      "multiplex c (ticks env) (execTimer0 env c) (heartTimer0 env)
         (preExecChecks (host env) c (w\<lparr>processpid := p\<rparr>)) = Some (EndOfReading, w3)"
      "r = 1" "w' = sendTerminal c False w3"
  using assms
  unfolding optionReadSend_def Let_def execTimer0_def heartTimer0_def
  by (auto split: option.splits prod.splits LoopExit.splits)

lemma checkExecutionTimeout_exectimeout [simp]:
  "exectimeout (snd (checkExecutionTimeout s t)) = exectimeout t"
  by (simp add: checkExecutionTimeout_def Let_def)

lemma checkExecutionTimeout_fires: "fst (checkExecutionTimeout s t) \<Longrightarrow> exectimeout t \<noteq> 0"
  by (auto simp: checkExecutionTimeout_def Let_def split: if_splits)

lemma heartbeat_reads [simp]:
  "readResult (outputStream (snd (heartbeat c k th w))) = readResult (outputStream w)"
  "readResult (errorStream (snd (heartbeat c k th w))) = readResult (errorStream w)"
  by simp_all

lemma iteration_Again:
  "iteration c k te th w = Again te' th' w' \<Longrightarrow>
     (0 < readResult (outputStream w') \<or> 0 < readResult (errorStream w')) \<and>
     exectimeout te' = exectimeout te"
  by (auto simp: iteration_unfold split: if_splits)

lemma iteration_Leave_ExecTimeout:
  "iteration c k te th w = Leave ExecTimeout w' \<Longrightarrow>
     readResult (outputStream w') = readResult (outputStream w) \<and>
     readResult (errorStream w') = readResult (errorStream w) \<and> exectimeout te \<noteq> 0"
  by (auto simp: iteration_unfold checkExecutionTimeout_fires split: if_splits)

lemma iteration_Leave_EndOfReading:
  "iteration c k te th w = Leave EndOfReading w' \<Longrightarrow>
     \<not> 0 < readResult (outputStream w') \<and> \<not> 0 < readResult (errorStream w')"
  by (auto simp: iteration_unfold split: if_splits)

lemma multiplex_ExecTimeout:
  "multiplex c ks te th w = Some (ExecTimeout, w') \<Longrightarrow>
     exectimeout te \<noteq> 0 \<and>
     (\<not> (readResult (errorStream w) = 0 \<and> readResult (outputStream w) = 0) \<longrightarrow>
      \<not> (readResult (errorStream w') = 0 \<and> readResult (outputStream w') = 0))"
proof (induction ks arbitrary: te th w)
  case Nil
  then show ?case by simp
next
  case (Cons k ks)
  show ?case
  proof (cases "iteration c k te th w")
    case (Again te1 th1 w1)
    with Cons.prems have m: "multiplex c ks te1 th1 w1 = Some (ExecTimeout, w')" by simp
    from iteration_Again [OF Again] Cons.IH [OF m] show ?thesis by auto
  next
    case (Leave e1 w1)
    with Cons.prems have "e1 = ExecTimeout" "w1 = w'" by simp_all
    with iteration_Leave_ExecTimeout [of c k te th w w'] Leave show ?thesis by simp
  qed
qed

lemma multiplex_EndOfReading:
  "multiplex c ks te th w = Some (EndOfReading, w') \<Longrightarrow>
     \<not> 0 < readResult (outputStream w') \<and> \<not> 0 < readResult (errorStream w')"
proof (induction ks arbitrary: te th w)
  case Nil
  then show ?case by simp
next
  case (Cons k ks)
  show ?case
  proof (cases "iteration c k te th w")
    case (Again te1 th1 w1)
    with Cons.prems have m: "multiplex c ks te1 th1 w1 = Some (EndOfReading, w')" by simp
    from Cons.IH [OF m] show ?thesis .
  next
    case (Leave e1 w1)
    with Cons.prems have "e1 = EndOfReading" "w1 = w'" by simp_all
    with iteration_Leave_EndOfReading [of c k te th w w'] Leave show ?thesis by simp
  qed
qed

text \<open>The messages of a whole run.\<close>

lemma optionReadSend_sent:
  assumes "optionReadSend env c npid w = Some (r, w')"
  shows "\<exists>ps ts es.
     messageQueue w' = messageQueue w @ ps @ ts @ es \<and>
     (\<forall>m\<in>set ps. isProgress m) \<and>
     (ts = [] \<or> (\<exists>u p q n s t. ts = [TimeoutMessage u p q n [] [] s t])) \<and>
     (es = [] \<or> (\<exists>u p q n s t. es = [ExitMessage u p q n s t
          (if EXITSTATUS w' \<noteq> 0 \<or> CWDERR w' \<or> UIDERR w' then 1 else 0)])) \<and>
     (r = - 1 \<or> r = 1) \<and>
     (r = - 1 \<longrightarrow> ts = [] \<and> es = []) \<and>
     (r = 1 \<longrightarrow> (es \<noteq> []) = (readResult (errorStream w') = 0 \<and> readResult (outputStream w') = 0)) \<and>
     (ts \<noteq> [] \<longrightarrow> getTimeout c \<noteq> 0) \<and>
     (ts \<noteq> [] \<and> es \<noteq> [] \<longrightarrow> readResult (errorStream w) = 0 \<and> readResult (outputStream w) = 0)"
  using assms
proof (cases rule: optionReadSend_cases)
  case (failed p w3)
  let ?w2 = "preExecChecks (host env) c (w\<lparr>processpid := p\<rparr>)"
  from multiplex_preserved [OF failed(1)] have "extends (loopMessage c ?w2) ?w2 w3"
    by (simp add: preserved_def)
  then obtain ls where ls: "messageQueue w3 = messageQueue ?w2 @ ls" "\<forall>m\<in>set ls. isProgress m"
    by (auto simp: extends_def loopMessage_def)
  obtain pre where pre: "messageQueue ?w2 = messageQueue w @ pre" "\<forall>m\<in>set pre. isProgress m"
    by (simp add: preExecChecks_queue)
  show ?thesis
    apply (rule exI [of _ "pre @ ls"], rule exI [of _ "[]"], rule exI [of _ "[]"])
    using failed ls pre by auto
next
  case (timeout p w3)
  let ?w2 = "preExecChecks (host env) c (w\<lparr>processpid := p\<rparr>)"
  from multiplex_preserved [OF timeout(1)] have "extends (loopMessage c ?w2) ?w2 w3"
    by (simp add: preserved_def)
  then obtain ls where ls: "messageQueue w3 = messageQueue ?w2 @ ls" "\<forall>m\<in>set ls. isProgress m"
    by (auto simp: extends_def loopMessage_def)
  obtain pre where pre: "messageQueue ?w2 = messageQueue w @ pre" "\<forall>m\<in>set pre. isProgress m"
    by (simp add: preExecChecks_queue)
  obtain ds where ds: "sentBy w3 (lastCheckAndSend c w3) = ds" "\<forall>m\<in>set ds. isProgress m"
    using lastCheckAndSend_sent [of c w3] by auto
  from multiplex_ExecTimeout [OF timeout(1)]
  have t0: "getTimeout c \<noteq> 0"
    and rd: "\<not> (readResult (errorStream w) = 0 \<and> readResult (outputStream w) = 0) \<longrightarrow>
      \<not> (readResult (errorStream w3) = 0 \<and> readResult (outputStream w3) = 0)"
    by (simp_all add: execTimer0_def)
  show ?thesis
    apply (rule exI [of _ "pre @ ls @ ds"])
    apply (rule exI [of _ "[TimeoutMessage (getUuid c) (processpid w3) (getRequestSequenceNumber c)
                   (responsecount (lastCheckAndSend c w3)) [] [] (getSource c) (getTaskUuid c)]"])
    apply (rule exI [of _ "if readResult (errorStream w3) = 0 \<and> readResult (outputStream w3) = 0
      then [ExitMessage (getUuid c) (processpid w3) (getRequestSequenceNumber c)
              (responsecount (lastCheckAndSend c w3)) (getSource c) (getTaskUuid c)
              (if EXITSTATUS w3 \<noteq> 0 \<or> CWDERR w3 \<or> UIDERR w3 then 1 else 0)]
      else []"])
    using timeout ls pre ds t0 rd by (auto simp: sendTerminal_queue)
next
  case (eof p w3)
  let ?w2 = "preExecChecks (host env) c (w\<lparr>processpid := p\<rparr>)"
  from multiplex_preserved [OF eof(1)] have "extends (loopMessage c ?w2) ?w2 w3"
    by (simp add: preserved_def)
  then obtain ls where ls: "messageQueue w3 = messageQueue ?w2 @ ls" "\<forall>m\<in>set ls. isProgress m"
    by (auto simp: extends_def loopMessage_def)
  obtain pre where pre: "messageQueue ?w2 = messageQueue w @ pre" "\<forall>m\<in>set pre. isProgress m"
    by (simp add: preExecChecks_queue)
  obtain ds where ds: "sentBy w3 (lastCheckAndSend c w3) = ds" "\<forall>m\<in>set ds. isProgress m"
    using lastCheckAndSend_sent [of c w3] by auto
  show ?thesis
    apply (rule exI [of _ "pre @ ls @ (if readResult (errorStream w3) = 0 \<and> readResult (outputStream w3) = 0 then ds else [])"])
    apply (rule exI [of _ "[]"])
    apply (rule exI [of _ "if readResult (errorStream w3) = 0 \<and> readResult (outputStream w3) = 0
      then [ExitMessage (getUuid c) (processpid w3) (getRequestSequenceNumber c)
              (responsecount (lastCheckAndSend c w3)) (getSource c) (getTaskUuid c)
              (if EXITSTATUS w3 \<noteq> 0 \<or> CWDERR w3 \<or> UIDERR w3 then 1 else 0)]
      else []"])
    using eof ls pre ds by (auto simp: sendTerminal_queue)
qed

lemma isProgress_not: "isProgress m \<Longrightarrow> \<not> isTimeout m \<and> \<not> isExit m"
  by (cases m) auto

lemma preExecChecks_exitStatusInv [simp]:
  "exitStatusInv (preExecChecks h c (w\<lparr>processpid := p\<rparr>)) = exitStatusInv w"
  by (simp add: exitStatusInv_def)

lemma sendTerminal_exitStatusInv:
  assumes "exitStatusInv w"
  shows "exitStatusInv (sendTerminal c t w)"
proof -
  have "errBuff (sendTerminal c t w) = errBuff w \<or> errBuff (sendTerminal c t w) = []"
    by (simp add: sendTerminal_def Let_def try_send_def)
  with assms show ?thesis by (auto simp: exitStatusInv_def)
qed

lemma loop_flags:
  assumes "multiplex c ks te th (preExecChecks h c (w\<lparr>processpid := p\<rparr>)) = Some (e, w3)"
  shows "CWDERR w3 = (CWDERR w \<or> \<not> directories h (getWorkingDirectory c)) \<and>
         UIDERR w3 = (UIDERR w \<or> users h (getRunAs c) = None) \<and>
         (exitStatusInv w \<longrightarrow> exitStatusInv w3) \<and>
         logged w3 = logged w \<and>
         sysCalls w3 = sysCalls w @ [Chdir (getWorkingDirectory c),
            (case users h (getRunAs c) of Some p \<Rightarrow> DoSetuid (snd p)
             | None \<Rightarrow> UndoSetuid (ruid w))]"
  using multiplex_preserved [OF assms]
  by (simp add: preserved_def preExecChecks_sysCalls split: option.splits)

lemma optionReadSend_flags:
  assumes "optionReadSend env c npid w = Some (r, w')"
  shows "CWDERR w' = (CWDERR w \<or> \<not> directories (host env) (getWorkingDirectory c)) \<and>
         UIDERR w' = (UIDERR w \<or> users (host env) (getRunAs c) = None) \<and>
         (exitStatusInv w \<longrightarrow> exitStatusInv w') \<and>
         logged w' = logged w \<and>
         (\<exists>ks. sysCalls w' = sysCalls w @ [Chdir (getWorkingDirectory c),
            (case users (host env) (getRunAs c) of Some p \<Rightarrow> DoSetuid (snd p)
             | None \<Rightarrow> UndoSetuid (ruid w))] @ ks)"
  using assms
proof (cases rule: optionReadSend_cases)
  case (failed p w3)
  from loop_flags [OF failed(1)] failed(3) show ?thesis by simp
next
  case (timeout p w3)
  from loop_flags [OF timeout(1)] timeout(3) show ?thesis
    by (simp add: sendTerminal_sysCalls sendTerminal_exitStatusInv)
next
  case (eof p w3)
  from loop_flags [OF eof(1)] eof(3) show ?thesis
    by (simp add: sendTerminal_sysCalls sendTerminal_exitStatusInv)
qed


text \<open>
  C3. On a thread as the constructor leaves it (\<open>EXITSTATUS = 0\<close>, both error flags
  off, nothing in or appended to \<open>errBuff\<close>), the exit message of a run carries exit code
  0 exactly when no byte was ever appended to the error buffer, the working directory
  exists and the user resolves; the code is 0 or 1, and it is 1 when any of
  \<open>EXITSTATUS\<close>, \<open>CWDERR\<close>, \<open>UIDERR\<close> is set.
\<close>

theorem exit_code:
  assumes "optionReadSend env command npid w = Some (r, w')"
      and "EXITSTATUS w = 0" and "errAppended w = []" and "errBuff w = []"
      and "\<not> CWDERR w" and "\<not> UIDERR w"
      and "m \<in> set (sentBy w w')" and "isExit m"
  shows "(rExitCode m = 0) =
           (errAppended w' = [] \<and> directories (host env) (getWorkingDirectory command) \<and>
            users (host env) (getRunAs command) \<noteq> None) \<and>
         (rExitCode m = 0 \<or> rExitCode m = 1) \<and>
         (EXITSTATUS w' \<noteq> 0 \<or> CWDERR w' \<or> UIDERR w' \<longrightarrow> rExitCode m = 1)"
proof -
  from optionReadSend_sent [OF assms(1)] obtain ps ts es where
    q: "messageQueue w' = messageQueue w @ ps @ ts @ es"
    and ps: "\<forall>m\<in>set ps. isProgress m"
    and ts: "ts = [] \<or> (\<exists>u p q n s t. ts = [TimeoutMessage u p q n [] [] s t])"
    and es: "es = [] \<or> (\<exists>u p q n s t. es = [ExitMessage u p q n s t
          (if EXITSTATUS w' \<noteq> 0 \<or> CWDERR w' \<or> UIDERR w' then 1 else 0)])"
    by blast
  from q have s: "sentBy w w' = ps @ ts @ es" by simp
  from assms(7,8) ps ts have "m \<in> set es"
    unfolding s by (auto dest: isProgress_not)
  with es have code: "rExitCode m = (if EXITSTATUS w' \<noteq> 0 \<or> CWDERR w' \<or> UIDERR w' then 1 else 0)"
    by auto
  have "exitStatusInv w" using assms(2-4) by (simp add: exitStatusInv_def)
  with optionReadSend_flags [OF assms(1)] assms(5,6)
  have f: "CWDERR w' = (\<not> directories (host env) (getWorkingDirectory command))"
          "UIDERR w' = (users (host env) (getRunAs command) = None)"
          "exitStatusInv w'" by auto
  from f(3) have "(EXITSTATUS w' \<noteq> 0) = (errAppended w' \<noteq> [])" by (simp add: exitStatusInv_def)
  with code f(1,2) show ?thesis by auto
qed

lemma sendTerminal_queue_extends: "\<exists>ms. messageQueue (sendTerminal c t w) = messageQueue w @ ms"
  by (simp add: sendTerminal_queue)

lemma optionReadSend_prefix:
  assumes "optionReadSend env c npid w = Some (r, w')"
  shows "\<exists>p rest. sentBy w w' =
     (if directories (host env) (getWorkingDirectory c) then []
      else [ResponseMessage (getUuid c) p (getRequestSequenceNumber c) 1
              ''Working Directory Does Not Exist on System'' [] (getSource c) (getTaskUuid c)]) @
     (if users (host env) (getRunAs c) = None
      then [ResponseMessage (getUuid c) p (getRequestSequenceNumber c) 1
              ''User Does Not Exist on System'' [] (getSource c) (getTaskUuid c)]
      else []) @ rest"
proof -
  have *: "\<exists>p rest. sentBy w w' =
     (if directories (host env) (getWorkingDirectory c) then []
      else [ResponseMessage (getUuid c) p (getRequestSequenceNumber c) 1
              ''Working Directory Does Not Exist on System'' [] (getSource c) (getTaskUuid c)]) @
     (if users (host env) (getRunAs c) = None
      then [ResponseMessage (getUuid c) p (getRequestSequenceNumber c) 1
              ''User Does Not Exist on System'' [] (getSource c) (getTaskUuid c)]
      else []) @ rest"
    if m: "multiplex c ks te th (preExecChecks (host env) c (w\<lparr>processpid := p0\<rparr>)) = Some (e, w3)"
      and x: "\<exists>ms. messageQueue w' = messageQueue w3 @ ms"
    for ks te th p0 e w3
  proof -
    from multiplex_preserved [OF m] obtain ls where
      "messageQueue w3 = messageQueue (preExecChecks (host env) c (w\<lparr>processpid := p0\<rparr>)) @ ls"
      by (auto simp: preserved_def extends_def)
    moreover from x obtain ms where "messageQueue w' = messageQueue w3 @ ms" by blast
    ultimately have "messageQueue w' = messageQueue w @
      ((if directories (host env) (getWorkingDirectory c) then []
      else [ResponseMessage (getUuid c) p0 (getRequestSequenceNumber c) 1
              ''Working Directory Does Not Exist on System'' [] (getSource c) (getTaskUuid c)]) @
     (if users (host env) (getRunAs c) = None
      then [ResponseMessage (getUuid c) p0 (getRequestSequenceNumber c) 1
              ''User Does Not Exist on System'' [] (getSource c) (getTaskUuid c)]
      else []) @ ls @ ms)"
      by (simp add: preExecChecks_queue)
    then have "sentBy w w' =
      (if directories (host env) (getWorkingDirectory c) then []
      else [ResponseMessage (getUuid c) p0 (getRequestSequenceNumber c) 1
              ''Working Directory Does Not Exist on System'' [] (getSource c) (getTaskUuid c)]) @
     (if users (host env) (getRunAs c) = None
      then [ResponseMessage (getUuid c) p0 (getRequestSequenceNumber c) 1
              ''User Does Not Exist on System'' [] (getSource c) (getTaskUuid c)]
      else []) @ ls @ ms"
      by (rule sentBy_append)
    then show ?thesis by blast
  qed
  from assms show ?thesis
  proof (cases rule: optionReadSend_cases)
    case (failed p w3)
    then show ?thesis using * [of "ticks env" "execTimer0 env c" "heartTimer0 env" p SelectFailed w3] by simp
  next
    case (timeout p w3)
    then show ?thesis
      using * [of "ticks env" "execTimer0 env c" "heartTimer0 env" p ExecTimeout w3]
        sendTerminal_queue_extends [of c True w3] by simp
  next
    case (eof p w3)
    then show ?thesis
      using * [of "ticks env" "execTimer0 env c" "heartTimer0 env" p EndOfReading w3]
        sendTerminal_queue_extends [of c False w3] by simp
  qed
qed

text \<open>
  C6, amended. When the user of the command does not resolve, a run of \<open>optionReadSend\<close>
  that returns has sent a progress message with response count 1 whose fifth argument
  (the error payload) is the literal text and whose sixth (the output payload) is empty;
  every exit message of the run carries exit code 1 and is the last message; a run that
  returns \<open>true\<close> with both read results 0 ends with an exit message.
\<close>

theorem missing_user:
  assumes "optionReadSend env command npid w = Some (r, w')"
      and "users (host env) (getRunAs command) = None"
  shows "(\<exists>p. ResponseMessage (getUuid command) p (getRequestSequenceNumber command) 1
              ''User Does Not Exist on System'' [] (getSource command) (getTaskUuid command)
            \<in> set (sentBy w w')) \<and>
         (\<forall>m\<in>set (sentBy w w'). isExit m \<longrightarrow> rExitCode m = 1 \<and> m = last (sentBy w w')) \<and>
         (r = 1 \<and> readResult (errorStream w') = 0 \<and> readResult (outputStream w') = 0 \<longrightarrow>
            isExit (last (sentBy w w')))"
proof -
  from optionReadSend_prefix [OF assms(1)] assms(2)
  have a: "\<exists>p. ResponseMessage (getUuid command) p (getRequestSequenceNumber command) 1
              ''User Does Not Exist on System'' [] (getSource command) (getTaskUuid command)
            \<in> set (sentBy w w')" by auto
  from optionReadSend_flags [OF assms(1)] assms(2) have u: "UIDERR w'" by simp
  from optionReadSend_sent [OF assms(1)] obtain ps ts es where
    q: "messageQueue w' = messageQueue w @ ps @ ts @ es"
    and ps: "\<forall>m\<in>set ps. isProgress m"
    and ts: "ts = [] \<or> (\<exists>u p q n s t. ts = [TimeoutMessage u p q n [] [] s t])"
    and es: "es = [] \<or> (\<exists>u p q n s t. es = [ExitMessage u p q n s t
          (if EXITSTATUS w' \<noteq> 0 \<or> CWDERR w' \<or> UIDERR w' then 1 else 0)])"
    and r2: "r = 1 \<longrightarrow> (es \<noteq> []) = (readResult (errorStream w') = 0 \<and> readResult (outputStream w') = 0)"
    by blast
  from q have s: "sentBy w w' = ps @ ts @ es" by simp
  have b: "\<forall>m\<in>set (sentBy w w'). isExit m \<longrightarrow> rExitCode m = 1 \<and> m = last (sentBy w w')"
    unfolding s using ps ts es u by (auto dest: isProgress_not)
  have c: "r = 1 \<and> readResult (errorStream w') = 0 \<and> readResult (outputStream w') = 0 \<longrightarrow>
            isExit (last (sentBy w w'))"
    unfolding s using es r2 by auto
  from a b c show ?thesis by blast
qed

lemma createExecString_sysCalls [simp]:
  "sysCalls (snd (createExecString c w)) = sysCalls w"
  "logged (snd (createExecString c w)) = logged w"
  by (simp_all add: createExecString_def Let_def)

text \<open>
  C8, amended. When the user resolves to the uids \<open>(r0, e0)\<close>: the inner child, if the
  working directory exists, calls \<open>chdir\<close>, then \<open>doSetuid e0\<close>, then the system shell;
  and every run of the supervisor's \<open>optionReadSend\<close> that returns has also called
  \<open>chdir\<close> and \<open>doSetuid e0\<close>, before the loop.
\<close>

theorem setuid_in_parent:
  assumes "users (host env) (getRunAs command) = Some (r0, e0)"
  shows "(directories (host env) (getWorkingDirectory command) \<longrightarrow>
            (\<exists>w'' s. innerChild (host env) command w = Ends w'' \<and>
               sysCalls w'' = sysCalls w @ [Chdir (getWorkingDirectory command), DoSetuid e0, System s])) \<and>
         (\<forall>r w'. optionReadSend env command npid w = Some (r, w') \<longrightarrow>
            (\<exists>ks. sysCalls w' = sysCalls w @ [Chdir (getWorkingDirectory command), DoSetuid e0] @ ks))"
proof (intro conjI impI allI)
  assume "directories (host env) (getWorkingDirectory command)"
  with assms show "\<exists>w'' s. innerChild (host env) command w = Ends w'' \<and>
               sysCalls w'' = sysCalls w @ [Chdir (getWorkingDirectory command), DoSetuid e0, System s]"
    by (simp add: innerChild_def checkCWD_def checkUID_def Let_def split_def)
next
  fix r w'
  assume "optionReadSend env command npid w = Some (r, w')"
  from optionReadSend_flags [OF this] assms
  show "\<exists>ks. sysCalls w' = sysCalls w @ [Chdir (getWorkingDirectory command), DoSetuid e0] @ ks"
    by simp
qed




subsection \<open>Runs on concrete inputs\<close>

text \<open>
  C1 fails on the code. For a command whose working directory does not exist and whose
  child writes nothing, the run sends the literal message with response count 1 and then
  the exit message, again with response count 1.
\<close>

theorem responsecount_repeats:
  "map rResponseCount (messageQueue (snd (the
      (optionReadSend (envOf [tickEOF]) commandNoDir 5 (worker0 commandNoDir))))) = [1, 1]"
  by code_simp



theorem exit_code_witness:
  "optionReadSend (envOf [tickErr, tickEOF]) command0 5 (worker0 command0) \<noteq> None \<and>
   EXITSTATUS (worker0 command0) = 0 \<and> errAppended (worker0 command0) = [] \<and>
   errBuff (worker0 command0) = [] \<and> \<not> CWDERR (worker0 command0) \<and> \<not> UIDERR (worker0 command0) \<and>
   ExitMessage ''u'' 4242 7 2 ''s'' ''t'' 1 \<in> set (sentBy (worker0 command0)
     (snd (the (optionReadSend (envOf [tickErr, tickEOF]) command0 5 (worker0 command0))))) \<and>
   isExit (ExitMessage ''u'' 4242 7 2 ''s'' ''t'' 1) \<and>
   errAppended (snd (the (optionReadSend (envOf [tickErr, tickEOF]) command0 5 (worker0 command0)))) = ''oops'' \<and>
   rExitCode (ExitMessage ''u'' 4242 7 2 ''s'' ''t'' 1) \<noteq> 0 \<and>
   optionReadSend (envOf [tickData, tickEOF]) command0 5 (worker0 command0) \<noteq> None \<and>
   ExitMessage ''u'' 4242 7 2 ''s'' ''t'' 0 \<in> set (sentBy (worker0 command0)
     (snd (the (optionReadSend (envOf [tickData, tickEOF]) command0 5 (worker0 command0))))) \<and>
   errAppended (snd (the (optionReadSend (envOf [tickData, tickEOF]) command0 5 (worker0 command0)))) = [] \<and>
   directories (host (envOf [tickData, tickEOF])) (getWorkingDirectory command0) \<and>
   users (host (envOf [tickData, tickEOF])) (getRunAs command0) \<noteq> None"
proof -
  let ?a = "optionReadSend (envOf [tickErr, tickEOF]) command0 5 (worker0 command0)"
  let ?b = "optionReadSend (envOf [tickData, tickEOF]) command0 5 (worker0 command0)"
  have a: "?a \<noteq> None" by code_simp
  have b: "?b \<noteq> None" by code_simp
  have ra: "?a = Some (fst (the ?a), snd (the ?a))" using a by auto
  have rb: "?b = Some (fst (the ?b), snd (the ?b))" using b by auto
  have i: "EXITSTATUS (worker0 command0) = 0" "errAppended (worker0 command0) = []"
    "errBuff (worker0 command0) = []" "\<not> CWDERR (worker0 command0)" "\<not> UIDERR (worker0 command0)"
    by code_simp+
  have ma: "ExitMessage ''u'' 4242 7 2 ''s'' ''t'' 1 \<in> set (sentBy (worker0 command0) (snd (the ?a)))"
    by code_simp
  have mb: "ExitMessage ''u'' 4242 7 2 ''s'' ''t'' 0 \<in> set (sentBy (worker0 command0) (snd (the ?b)))"
    by code_simp
  have ea: "errAppended (snd (the ?a)) = ''oops''" by code_simp
  from exit_code [OF ra i ma] ea
  have ca: "rExitCode (ExitMessage ''u'' 4242 7 2 ''s'' ''t'' 1) \<noteq> 0" by simp
  from exit_code [OF rb i mb]
  have cb: "errAppended (snd (the ?b)) = [] \<and>
            directories (host (envOf [tickData, tickEOF])) (getWorkingDirectory command0) \<and>
            users (host (envOf [tickData, tickEOF])) (getRunAs command0) \<noteq> None" by simp
  from a b i ma mb ea ca cb show ?thesis by simp
qed

text \<open>
  C6, as stated, fails: for a user that does not resolve, the progress message carries
  the literal text as its error payload (the fifth argument) and an empty output payload,
  where the claim puts the text in the output payload.
\<close>

theorem missing_user_payload_counterexample:
  "sentBy (worker0 commandNoUser)
     (snd (the (optionReadSend (envOf [tickEOF]) commandNoUser 5 (worker0 commandNoUser)))) =
     [ResponseMessage ''u'' 4242 7 1 ''User Does Not Exist on System'' [] ''s'' ''t'',
      ExitMessage ''u'' 4242 7 1 ''s'' ''t'' 1] \<and>
   rStdOut (ResponseMessage ''u'' 4242 7 1 ''User Does Not Exist on System'' [] ''s'' ''t'') = [] \<and>
   rStdErr (ResponseMessage ''u'' 4242 7 1 ''User Does Not Exist on System'' [] ''s'' ''t'') =
     ''User Does Not Exist on System''"
  by code_simp

theorem missing_user_witness:
  "optionReadSend (envOf [tickEOF]) commandNoUser 5 (worker0 commandNoUser) \<noteq> None \<and>
   users (host (envOf [tickEOF])) (getRunAs commandNoUser) = None \<and>
   ExitMessage ''u'' 4242 7 1 ''s'' ''t'' 1 \<in> set (sentBy (worker0 commandNoUser)
     (snd (the (optionReadSend (envOf [tickEOF]) commandNoUser 5 (worker0 commandNoUser))))) \<and>
   isExit (ExitMessage ''u'' 4242 7 1 ''s'' ''t'' 1) \<and>
   ExitMessage ''u'' 4242 7 1 ''s'' ''t'' 1 = last (sentBy (worker0 commandNoUser)
     (snd (the (optionReadSend (envOf [tickEOF]) commandNoUser 5 (worker0 commandNoUser)))))"
proof -
  let ?a = "optionReadSend (envOf [tickEOF]) commandNoUser 5 (worker0 commandNoUser)"
  have a: "?a \<noteq> None" by code_simp
  have ra: "?a = Some (fst (the ?a), snd (the ?a))" using a by auto
  have u: "users (host (envOf [tickEOF])) (getRunAs commandNoUser) = None" by code_simp
  have m: "ExitMessage ''u'' 4242 7 1 ''s'' ''t'' 1 \<in> set (sentBy (worker0 commandNoUser) (snd (the ?a)))"
    by code_simp
  have e: "isExit (ExitMessage ''u'' 4242 7 1 ''s'' ''t'' 1)" by simp
  from missing_user [OF ra u] m e
  have l: "ExitMessage ''u'' 4242 7 1 ''s'' ''t'' 1 = last (sentBy (worker0 commandNoUser) (snd (the ?a)))"
    by blast
  from a u m e l show ?thesis by blast
qed

text \<open>
  C8, as stated, fails: for a user that resolves to uid 1000, the supervisor's own run of
  \<open>optionReadSend\<close> calls \<open>doSetuid 1000\<close>.
\<close>

theorem setuid_in_parent_counterexample:
  "sysCalls (snd (the (optionReadSend (envOf [tickEOF]) commandAlice 5 (worker0 commandAlice)))) =
     [Chdir ''/tmp'', DoSetuid 1000]"
  by code_simp

theorem setuid_in_parent_witness:
  "users (host (envOf [tickEOF])) (getRunAs commandAlice) = Some (1000, 1000) \<and>
   directories (host (envOf [tickEOF])) (getWorkingDirectory commandAlice) \<and>
   optionReadSend (envOf [tickEOF]) commandAlice 5 (worker0 commandAlice) \<noteq> None \<and>
   (\<exists>w'' s. innerChild (host (envOf [tickEOF])) commandAlice (worker0 commandAlice) = Ends w'' \<and>
      sysCalls w'' = sysCalls (worker0 commandAlice) @ [Chdir (getWorkingDirectory commandAlice), DoSetuid 1000, System s]) \<and>
   (\<exists>ks. sysCalls (snd (the (optionReadSend (envOf [tickEOF]) commandAlice 5 (worker0 commandAlice)))) =
      sysCalls (worker0 commandAlice) @ [Chdir (getWorkingDirectory commandAlice), DoSetuid 1000] @ ks)"
proof -
  let ?a = "optionReadSend (envOf [tickEOF]) commandAlice 5 (worker0 commandAlice)"
  have a: "?a \<noteq> None" by code_simp
  have ra: "?a = Some (fst (the ?a), snd (the ?a))" using a by auto
  have u: "users (host (envOf [tickEOF])) (getRunAs commandAlice) = Some (1000, 1000)" by code_simp
  have d: "directories (host (envOf [tickEOF])) (getWorkingDirectory commandAlice)" by code_simp
  from setuid_in_parent [OF u, where w = "worker0 commandAlice" and npid = 5] d ra a u show ?thesis
    by blast
qed



subsection \<open>Fragmentation of a burst\<close>








lemma preExecChecks_ACTFLAG [simp]: "ACTFLAG (preExecChecks h c w) = ACTFLAG w"
  by (auto simp: preExecChecks_def checkCWD_def checkUID_def try_send_def Let_def split: option.splits)




















end
